theory Spec2Isabelle
  imports Complex_Main "HOL-Library.Sublist"
begin

section \<open>JSON values\<close>

text \<open>
  Bodies exchanged with the upstream network functions and the opaque policy rules of a
  session (\<^verbatim>\<open>Dict[str, Any]\<close>) are JSON values.
\<close>

datatype json =
    JNull
  | JBool bool
  | JNum int
  | JStr string
  | JArr "json list"
  | JObj "(string \<times> json) list"

section \<open>Backend forwarding layer (routers/core/proxy.py)\<close>

text \<open>
  The exceptions that can reach the handlers of \<^verbatim>\<open>proxy_request\<close>, each with the text the
  library put into it. \<^verbatim>\<open>TimeoutException\<close> stands for \<^verbatim>\<open>httpx.TimeoutException\<close> and its
  subclasses, \<^verbatim>\<open>ConnectError\<close> for \<^verbatim>\<open>httpx.ConnectError\<close>, \<^verbatim>\<open>JSONDecodeError\<close> for the
  error \<^verbatim>\<open>response.json()\<close> raises on a body that is not JSON, and \<^verbatim>\<open>OtherError\<close> for
  every other exception.
\<close>

datatype proxy_exception =
    TimeoutException string
  | ConnectError string
  | JSONDecodeError string
  | OtherError string

text \<open>The body of an upstream response: text that parses as JSON, or text that does not.\<close>

datatype body_text = JsonText json | PlainText string

record response =
  status_code :: nat
  content :: body_text

record request =
  req_method :: string
  req_url :: string
  req_params :: "(string \<times> string) list"
  req_headers :: "(string \<times> string) list"

text \<open>
  What the upstream does with one request: it refuses the connection (or cannot be
  reached); it answers, and the number is the longest the client has to wait for it at any
  one step (for the connection, for the next bytes of the response); or the transport
  fails in another way.
\<close>

datatype upstream =
    Refuses string
  | Replies real response
  | Fails string

text \<open>
  The network: the requests sent so far, and what the upstream does with the \<open>n\<close>-th
  request. Every call of \<^verbatim>\<open>client.request\<close> appends to \<open>sent\<close>, so the number of attempts
  a function makes can be read off the state it returns.
\<close>

record network =
  sent :: "request list"
  behaviour :: "nat \<Rightarrow> request \<Rightarrow> upstream"

text \<open>
  \<^verbatim>\<open>AsyncClient(timeout=t).request(...)\<close>: one attempt, in which no single wait may be longer
  than the timeout \<open>t\<close>.
\<close>

definition client_request :: "real \<Rightarrow> request \<Rightarrow> network \<Rightarrow> (proxy_exception + response) \<times> network" where
  "client_request t rq net =
     (let net' = net\<lparr>sent := sent net @ [rq]\<rparr> in
      case behaviour net (length (sent net)) rq of
        Refuses msg \<Rightarrow> (Inl (ConnectError msg), net')
      | Replies delay r \<Rightarrow>
          if delay > t then (Inl (TimeoutException ''timed out''), net') else (Inr r, net')
      | Fails msg \<Rightarrow> (Inl (OtherError msg), net'))"

text \<open>\<^verbatim>\<open>response.json()\<close>\<close>

definition response_json :: "response \<Rightarrow> proxy_exception + json" where
  "response_json r =
     (case content r of
        JsonText j \<Rightarrow> Inr j
      | PlainText s \<Rightarrow> Inl (JSONDecodeError s))"

definition gateway_timeout_body :: "string \<Rightarrow> json" where
  "gateway_timeout_body destination_url =
     JObj [(''error'', JStr ''Gateway timeout''),
           (''detail'', JStr (''Backend '' @ destination_url @ '' did not respond in time''))]"

definition bad_gateway_connect_body :: "string \<Rightarrow> json" where
  "bad_gateway_connect_body destination_url =
     JObj [(''error'', JStr ''Bad gateway''),
           (''detail'', JStr (''Could not connect to '' @ destination_url))]"

definition bad_gateway_generic_body :: json where
  "bad_gateway_generic_body =
     JObj [(''error'', JStr ''Bad gateway''),
           (''detail'', JStr ''Unexpected error contacting backend'')]"

text \<open>The \<^verbatim>\<open>except\<close> clauses of \<^verbatim>\<open>proxy_request\<close>, in the order of the source.\<close>

fun proxy_handler :: "string \<Rightarrow> proxy_exception \<Rightarrow> json \<times> nat" where
  "proxy_handler destination_url (TimeoutException _) = (gateway_timeout_body destination_url, 504)"
| "proxy_handler destination_url (ConnectError _) = (bad_gateway_connect_body destination_url, 502)"
| "proxy_handler destination_url _ = (bad_gateway_generic_body, 502)"

definition proxy_request ::
  "string \<Rightarrow> string \<Rightarrow> (string \<times> string) list \<Rightarrow> (string \<times> string) list \<Rightarrow> network
     \<Rightarrow> (json \<times> nat) \<times> network" where
  "proxy_request destination_url method params headers net =
     (case client_request 5 \<lparr>req_method = method, req_url = destination_url,
                               req_params = params, req_headers = headers\<rparr> net of
        (Inl e, net') \<Rightarrow> (proxy_handler destination_url e, net')
      | (Inr r, net') \<Rightarrow>
          (case response_json r of
             Inl e \<Rightarrow> (proxy_handler destination_url e, net')
           | Inr j \<Rightarrow> ((j, status_code r), net')))"

text \<open>What the upstream does with the request that \<^verbatim>\<open>proxy_request\<close> is about to send.\<close>

definition next_upstream ::
  "string \<Rightarrow> string \<Rightarrow> (string \<times> string) list \<Rightarrow> (string \<times> string) list \<Rightarrow> network \<Rightarrow> upstream" where
  "next_upstream destination_url method params headers net =
     behaviour net (length (sent net))
       \<lparr>req_method = method, req_url = destination_url, req_params = params, req_headers = headers\<rparr>"

text \<open>A network whose upstream treats every request alike.\<close>

definition constant_network :: "upstream \<Rightarrow> network" where
  "constant_network u = \<lparr>sent = [], behaviour = (\<lambda>n rq. u)\<rparr>"

section \<open>Identifier and credential validators (models/subscriber.py)\<close>

text \<open>
  Every failure of a field constraint, a missing required field and the \<^verbatim>\<open>ValueError\<close> of a
  model validator reach the caller as one pydantic \<^verbatim>\<open>ValidationError\<close>.
\<close>

datatype validation_error = ValidationError

definition bindV :: "validation_error + 'a \<Rightarrow> ('a \<Rightarrow> validation_error + 'b) \<Rightarrow> validation_error + 'b" where
  "bindV r f = (case r of Inl e \<Rightarrow> Inl e | Inr x \<Rightarrow> f x)"

text \<open>
  One key of an input dictionary whose value, when there is one, has the type the model
  declares: the key is missing, it holds \<^verbatim>\<open>None\<close> (JSON \<^verbatim>\<open>null\<close>), or it holds a value.
\<close>

datatype 'a field = Absent | Null | Given 'a

text \<open>A field with no default and a type that is not \<^verbatim>\<open>Optional\<close>.\<close>

fun required :: "('a \<Rightarrow> validation_error + 'b) \<Rightarrow> 'a field \<Rightarrow> validation_error + 'b" where
  "required f Absent = Inl ValidationError"
| "required f Null = Inl ValidationError"
| "required f (Given x) = f x"

text \<open>A field with a default and a type that is not \<^verbatim>\<open>Optional\<close>: the default is not validated.\<close>

fun with_default :: "'b \<Rightarrow> ('a \<Rightarrow> validation_error + 'b) \<Rightarrow> 'a field \<Rightarrow> validation_error + 'b" where
  "with_default d f Absent = Inr d"
| "with_default d f Null = Inl ValidationError"
| "with_default d f (Given x) = f x"

text \<open>An \<^verbatim>\<open>Optional\<close> field with a default: \<^verbatim>\<open>None\<close> is accepted as it is.\<close>

fun optional :: "'b option \<Rightarrow> ('a \<Rightarrow> validation_error + 'b) \<Rightarrow> 'a field \<Rightarrow> validation_error + 'b option" where
  "optional d f Absent = Inr d"
| "optional d f Null = Inr None"
| "optional d f (Given x) = (case f x of Inl e \<Rightarrow> Inl e | Inr y \<Rightarrow> Inr (Some y))"

text \<open>A value of a type without constraints.\<close>

definition accept :: "'a \<Rightarrow> validation_error + 'a" where
  "accept x = Inr x"

subsection \<open>String patterns\<close>

text \<open>
  The three patterns of the source have the shape \<^verbatim>\<open>^[ranges]{lo,hi}$\<close>: a character class
  given by ranges of code points, repeated between \<open>lo\<close> and \<open>hi\<close> times, anchored at both
  ends of the string.
\<close>

type_synonym char_class = "(char \<times> char) list"

definition in_class :: "char_class \<Rightarrow> char \<Rightarrow> bool" where
  "in_class cls c =
     list_ex (\<lambda>(lo, hi). (of_char lo :: nat) \<le> of_char c \<and> (of_char c :: nat) \<le> of_char hi) cls"

fun match_repeat :: "char_class \<Rightarrow> nat \<Rightarrow> nat \<Rightarrow> string \<Rightarrow> bool" where
  "match_repeat cls lo hi [] = (lo = 0)"
| "match_repeat cls lo hi (c # cs) =
     (0 < hi \<and> in_class cls c \<and> match_repeat cls (lo - 1) (hi - 1) cs)"

text \<open>\<^verbatim>\<open>Field(pattern=...)\<close> on a string.\<close>

definition pattern_field :: "char_class \<Rightarrow> nat \<Rightarrow> nat \<Rightarrow> string \<Rightarrow> validation_error + string" where
  "pattern_field cls lo hi v = (if match_repeat cls lo hi v then Inr v else Inl ValidationError)"

definition digit_class :: char_class where
  "digit_class = [(CHR ''0'', CHR ''9'')]"

definition hex_class :: char_class where
  "hex_class = [(CHR ''0'', CHR ''9''), (CHR ''a'', CHR ''f''), (CHR ''A'', CHR ''F'')]"

text \<open>\<^verbatim>\<open>ImsiStr = Annotated[str, Field(pattern=r"^[0-9]{14,15}$")]\<close>\<close>

definition ImsiStr :: "string \<Rightarrow> validation_error + string" where
  "ImsiStr v = pattern_field digit_class 14 15 v"

text \<open>\<^verbatim>\<open>clean_hex_spaces\<close>: \<^verbatim>\<open>v.replace(" ", "")\<close>\<close>

definition clean_hex_spaces :: "string \<Rightarrow> string" where
  "clean_hex_spaces v = filter (\<lambda>c. c \<noteq> CHR '' '') v"

text \<open>\<^verbatim>\<open>Hex32Str\<close> and \<^verbatim>\<open>Hex4Str\<close>: the before-validator runs first, then the pattern.\<close>

definition Hex32Str :: "string \<Rightarrow> validation_error + string" where
  "Hex32Str v = pattern_field hex_class 32 32 (clean_hex_spaces v)"

definition Hex4Str :: "string \<Rightarrow> validation_error + string" where
  "Hex4Str v = pattern_field hex_class 4 4 (clean_hex_spaces v)"

text \<open>\<^verbatim>\<open>Field(max_length=n)\<close> on a string.\<close>

definition max_length_field :: "nat \<Rightarrow> string \<Rightarrow> validation_error + string" where
  "max_length_field n v = (if length v \<le> n then Inr v else Inl ValidationError)"

subsection \<open>Security credentials\<close>

record SecurityModel =
  sec_k :: string
  sec_amf :: string
  sec_op :: "string option"
  sec_opc :: "string option"

text \<open>The dictionary a \<^verbatim>\<open>SecurityModel\<close> is built from.\<close>

record SecurityDict =
  d_k :: "string field"
  d_amf :: "string field"
  d_op :: "string field"
  d_opc :: "string field"

text \<open>Python's truth value of an \<^verbatim>\<open>Optional[str]\<close>.\<close>

fun truthy :: "string option \<Rightarrow> bool" where
  "truthy None = False"
| "truthy (Some s) = (s \<noteq> [])"

definition check_op_or_opc :: "SecurityModel \<Rightarrow> validation_error + SecurityModel" where
  "check_op_or_opc self =
     (if truthy (sec_op self) \<and> truthy (sec_opc self) then Inl ValidationError
      else if \<not> truthy (sec_op self) \<and> \<not> truthy (sec_opc self) then Inl ValidationError
      else Inr self)"

definition validate_SecurityModel :: "SecurityDict \<Rightarrow> validation_error + SecurityModel" where
  "validate_SecurityModel d =
     bindV (required Hex32Str (d_k d)) (\<lambda>k.
     bindV (with_default ''8000'' Hex4Str (d_amf d)) (\<lambda>amf.
     bindV (optional None Hex32Str (d_op d)) (\<lambda>op.
     bindV (optional None Hex32Str (d_opc d)) (\<lambda>opc.
     check_op_or_opc \<lparr>sec_k = k, sec_amf = amf, sec_op = op, sec_opc = opc\<rparr>))))"

subsection \<open>The validators in the words of the specification\<close>

definition is_decimal_digit :: "char \<Rightarrow> bool" where
  "is_decimal_digit c = (c \<in> set ''0123456789'')"

definition is_hex_digit :: "char \<Rightarrow> bool" where
  "is_hex_digit c = (c \<in> set ''0123456789abcdefABCDEF'')"

text \<open>A field that holds a string which, spaces removed, is \<open>n\<close> hexadecimal digits.\<close>

fun holds_hex :: "nat \<Rightarrow> string field \<Rightarrow> bool" where
  "holds_hex n (Given s) =
     (length (clean_hex_spaces s) = n \<and> list_all is_hex_digit (clean_hex_spaces s))"
| "holds_hex n _ = False"

fun not_supplied :: "'a field \<Rightarrow> bool" where
  "not_supplied (Given x) = False"
| "not_supplied _ = True"

text \<open>
  The acceptance condition of the specification, read with "whitespace": space, tab, line
  feed, vertical tab, form feed and carriage return are all stripped before the check.
\<close>

definition is_whitespace :: "char \<Rightarrow> bool" where
  "is_whitespace c = (c \<in> set [CHR '' '', CHR 0x09, CHR 0x0A, CHR 0x0B, CHR 0x0C, CHR 0x0D])"

definition strip_whitespace :: "string \<Rightarrow> string" where
  "strip_whitespace v = filter (\<lambda>c. \<not> is_whitespace c) v"

fun holds_hex_ws :: "nat \<Rightarrow> string field \<Rightarrow> bool" where
  "holds_hex_ws n (Given s) =
     (length (strip_whitespace s) = n \<and> list_all is_hex_digit (strip_whitespace s))"
| "holds_hex_ws n _ = False"

definition spec_security_accepts :: "SecurityDict \<Rightarrow> bool" where
  "spec_security_accepts d =
     (holds_hex_ws 32 (d_k d)
      \<and> (d_amf d = Absent \<or> holds_hex_ws 4 (d_amf d))
      \<and> (holds_hex_ws 32 (d_op d) \<and> not_supplied (d_opc d)
         \<or> holds_hex_ws 32 (d_opc d) \<and> not_supplied (d_op d)))"

section \<open>Subscriber record model (models/subscriber.py)\<close>

text \<open>
  Each pydantic model is a record; the dictionary it is validated from and dumped to is a
  second record whose fields are keys that may be missing. Documents in the database are
  such dictionaries.
\<close>

text \<open>
  An identifier as a dictionary holds it: the \<^verbatim>\<open>ObjectId\<close> the database driver generates
  (given by its 24 hexadecimal digits), or a plain string. \<^verbatim>\<open>PyObjectId\<close> turns either into
  a string with \<^verbatim>\<open>str\<close> before validating.
\<close>

datatype bson_id = ObjectId string | StrId string

fun str_of_id :: "bson_id \<Rightarrow> string" where
  "str_of_id (ObjectId h) = h"
| "str_of_id (StrId s) = s"

definition PyObjectId :: "bson_id \<Rightarrow> validation_error + string" where
  "PyObjectId v = Inr (str_of_id v)"

text \<open>A list field: every element is validated, in order, with its index.\<close>

fun validate_each ::
  "(nat \<Rightarrow> 'a \<Rightarrow> validation_error + 'b) \<Rightarrow> nat \<Rightarrow> 'a list \<Rightarrow> validation_error + 'b list" where
  "validate_each f i [] = Inr []"
| "validate_each f i (x # xs) =
     (case f i x of
        Inl e \<Rightarrow> Inl e
      | Inr y \<Rightarrow> (case validate_each f (Suc i) xs of Inl e \<Rightarrow> Inl e | Inr ys \<Rightarrow> Inr (y # ys)))"

text \<open>\<^verbatim>\<open>model_dump(exclude_none=True)\<close> on an optional attribute: \<^verbatim>\<open>None\<close> leaves the key out.\<close>

fun dump_opt :: "('a \<Rightarrow> 'b) \<Rightarrow> 'a option \<Rightarrow> 'b field" where
  "dump_opt f None = Absent"
| "dump_opt f (Some x) = Given (f x)"

subsection \<open>AmbrValueModel, AmbrModel\<close>

record AmbrValueModel =
  av_value :: int
  av_unit :: int

record AmbrValueDict =
  d_av_value :: "int field"
  d_av_unit :: "int field"

definition validate_AmbrValueModel :: "AmbrValueDict \<Rightarrow> validation_error + AmbrValueModel" where
  "validate_AmbrValueModel d =
     bindV (required accept (d_av_value d)) (\<lambda>v.
     bindV (required accept (d_av_unit d)) (\<lambda>u.
     Inr \<lparr>av_value = v, av_unit = u\<rparr>))"

definition dump_AmbrValueModel :: "AmbrValueModel \<Rightarrow> AmbrValueDict" where
  "dump_AmbrValueModel m = \<lparr>d_av_value = Given (av_value m), d_av_unit = Given (av_unit m)\<rparr>"

record AmbrModel =
  am_downlink :: AmbrValueModel
  am_uplink :: AmbrValueModel

record AmbrDict =
  d_am_downlink :: "AmbrValueDict field"
  d_am_uplink :: "AmbrValueDict field"

definition default_AmbrValueModel :: AmbrValueModel where
  "default_AmbrValueModel = \<lparr>av_value = 1000000000, av_unit = 0\<rparr>"

definition validate_AmbrModel :: "AmbrDict \<Rightarrow> validation_error + AmbrModel" where
  "validate_AmbrModel d =
     bindV (with_default default_AmbrValueModel validate_AmbrValueModel (d_am_downlink d)) (\<lambda>dl.
     bindV (with_default default_AmbrValueModel validate_AmbrValueModel (d_am_uplink d)) (\<lambda>ul.
     Inr \<lparr>am_downlink = dl, am_uplink = ul\<rparr>))"

definition dump_AmbrModel :: "AmbrModel \<Rightarrow> AmbrDict" where
  "dump_AmbrModel m =
     \<lparr>d_am_downlink = Given (dump_AmbrValueModel (am_downlink m)),
      d_am_uplink = Given (dump_AmbrValueModel (am_uplink m))\<rparr>"

definition default_AmbrModel :: AmbrModel where
  "default_AmbrModel = \<lparr>am_downlink = default_AmbrValueModel, am_uplink = default_AmbrValueModel\<rparr>"

subsection \<open>ArpModel, QosModel, UeModel\<close>

record ArpModel =
  arp_priority_level :: int
  arp_pre_emption_capability :: int
  arp_pre_emption_vulnerability :: int

record ArpDict =
  d_arp_priority_level :: "int field"
  d_arp_pre_emption_capability :: "int field"
  d_arp_pre_emption_vulnerability :: "int field"

definition validate_ArpModel :: "ArpDict \<Rightarrow> validation_error + ArpModel" where
  "validate_ArpModel d =
     bindV (with_default 8 accept (d_arp_priority_level d)) (\<lambda>pl.
     bindV (with_default 1 accept (d_arp_pre_emption_capability d)) (\<lambda>pc.
     bindV (with_default 2 accept (d_arp_pre_emption_vulnerability d)) (\<lambda>pv.
     Inr \<lparr>arp_priority_level = pl, arp_pre_emption_capability = pc,
          arp_pre_emption_vulnerability = pv\<rparr>)))"

definition dump_ArpModel :: "ArpModel \<Rightarrow> ArpDict" where
  "dump_ArpModel m =
     \<lparr>d_arp_priority_level = Given (arp_priority_level m),
      d_arp_pre_emption_capability = Given (arp_pre_emption_capability m),
      d_arp_pre_emption_vulnerability = Given (arp_pre_emption_vulnerability m)\<rparr>"

definition default_ArpModel :: ArpModel where
  "default_ArpModel =
     \<lparr>arp_priority_level = 8, arp_pre_emption_capability = 1, arp_pre_emption_vulnerability = 2\<rparr>"

record QosModel =
  qos_index :: int
  qos_arp :: "ArpModel option"

record QosDict =
  d_qos_index :: "int field"
  d_qos_arp :: "ArpDict field"

definition validate_QosModel :: "QosDict \<Rightarrow> validation_error + QosModel" where
  "validate_QosModel d =
     bindV (with_default 9 accept (d_qos_index d)) (\<lambda>i.
     bindV (optional (Some default_ArpModel) validate_ArpModel (d_qos_arp d)) (\<lambda>a.
     Inr \<lparr>qos_index = i, qos_arp = a\<rparr>))"

definition dump_QosModel :: "QosModel \<Rightarrow> QosDict" where
  "dump_QosModel m =
     \<lparr>d_qos_index = Given (qos_index m), d_qos_arp = dump_opt dump_ArpModel (qos_arp m)\<rparr>"

definition default_QosModel :: QosModel where
  "default_QosModel = \<lparr>qos_index = 9, qos_arp = Some default_ArpModel\<rparr>"

record UeModel =
  ue_ipv4 :: "string option"
  ue_ipv6 :: "string option"

record UeDict =
  d_ue_ipv4 :: "string field"
  d_ue_ipv6 :: "string field"

definition validate_UeModel :: "UeDict \<Rightarrow> validation_error + UeModel" where
  "validate_UeModel d =
     bindV (optional None accept (d_ue_ipv4 d)) (\<lambda>v4.
     bindV (optional None accept (d_ue_ipv6 d)) (\<lambda>v6.
     Inr \<lparr>ue_ipv4 = v4, ue_ipv6 = v6\<rparr>))"

definition dump_UeModel :: "UeModel \<Rightarrow> UeDict" where
  "dump_UeModel m =
     \<lparr>d_ue_ipv4 = dump_opt (\<lambda>s. s) (ue_ipv4 m), d_ue_ipv6 = dump_opt (\<lambda>s. s) (ue_ipv6 m)\<rparr>"

subsection \<open>SessionModel\<close>

record SessionModel =
  se_name :: string
  se_type :: int
  se_qos :: QosModel
  se_ambr :: AmbrModel
  se_ue :: "UeModel option"
  se_pcc_rule :: "(string \<times> json) list list"
  se_lbo_roaming_allowed :: "bool option"
  se_id :: "string option"

record SessionDict =
  d_se_name :: "string field"
  d_se_type :: "int field"
  d_se_qos :: "QosDict field"
  d_se_ambr :: "AmbrDict field"
  d_se_ue :: "UeDict field"
  d_se_pcc_rule :: "(string \<times> json) list list field"
  d_se_lbo_roaming_allowed :: "bool field"
  d_se_id :: "bson_id field"

text \<open>
  \<open>fresh\<close> is what \<^verbatim>\<open>str(ObjectId())\<close> returns when the default factory of \<^verbatim>\<open>id\<close> runs for
  this session.
\<close>

definition validate_SessionModel :: "string \<Rightarrow> SessionDict \<Rightarrow> validation_error + SessionModel" where
  "validate_SessionModel fresh d =
     bindV (with_default ''internet'' accept (d_se_name d)) (\<lambda>n.
     bindV (with_default 3 accept (d_se_type d)) (\<lambda>t.
     bindV (with_default default_QosModel validate_QosModel (d_se_qos d)) (\<lambda>q.
     bindV (with_default default_AmbrModel validate_AmbrModel (d_se_ambr d)) (\<lambda>a.
     bindV (optional None validate_UeModel (d_se_ue d)) (\<lambda>u.
     bindV (with_default [] accept (d_se_pcc_rule d)) (\<lambda>p.
     bindV (optional None accept (d_se_lbo_roaming_allowed d)) (\<lambda>l.
     bindV (optional (Some fresh) PyObjectId (d_se_id d)) (\<lambda>i.
     Inr \<lparr>se_name = n, se_type = t, se_qos = q, se_ambr = a, se_ue = u, se_pcc_rule = p,
          se_lbo_roaming_allowed = l, se_id = i\<rparr>))))))))"

definition dump_SessionModel :: "SessionModel \<Rightarrow> SessionDict" where
  "dump_SessionModel m =
     \<lparr>d_se_name = Given (se_name m),
      d_se_type = Given (se_type m),
      d_se_qos = Given (dump_QosModel (se_qos m)),
      d_se_ambr = Given (dump_AmbrModel (se_ambr m)),
      d_se_ue = dump_opt dump_UeModel (se_ue m),
      d_se_pcc_rule = Given (se_pcc_rule m),
      d_se_lbo_roaming_allowed = dump_opt (\<lambda>b. b) (se_lbo_roaming_allowed m),
      d_se_id = dump_opt StrId (se_id m)\<rparr>"

subsection \<open>SliceModel\<close>

record SliceModel =
  sl_sst :: int
  sl_sd :: "string option"
  sl_default_indicator :: bool
  sl_session :: "SessionModel list"
  sl_id :: "string option"

record SliceDict =
  d_sl_sst :: "int field"
  d_sl_sd :: "string field"
  d_sl_default_indicator :: "bool field"
  d_sl_session :: "SessionDict list field"
  d_sl_id :: "bson_id field"

text \<open>
  \<open>gen\<close> gives the fresh identifiers of this slice: \<open>gen []\<close> for the slice itself and
  \<open>gen [j]\<close> for its \<open>j\<close>-th session.
\<close>

definition validate_SliceModel :: "(nat list \<Rightarrow> string) \<Rightarrow> SliceDict \<Rightarrow> validation_error + SliceModel" where
  "validate_SliceModel gen d =
     bindV (with_default 1 accept (d_sl_sst d)) (\<lambda>sst.
     bindV (optional (Some ''000001'') accept (d_sl_sd d)) (\<lambda>sd.
     bindV (with_default True accept (d_sl_default_indicator d)) (\<lambda>di.
     bindV (required (validate_each (\<lambda>j. validate_SessionModel (gen [j])) 0) (d_sl_session d)) (\<lambda>ss.
     bindV (optional (Some (gen [])) PyObjectId (d_sl_id d)) (\<lambda>i.
     Inr \<lparr>sl_sst = sst, sl_sd = sd, sl_default_indicator = di, sl_session = ss, sl_id = i\<rparr>)))))"

definition dump_SliceModel :: "SliceModel \<Rightarrow> SliceDict" where
  "dump_SliceModel m =
     \<lparr>d_sl_sst = Given (sl_sst m),
      d_sl_sd = dump_opt (\<lambda>s. s) (sl_sd m),
      d_sl_default_indicator = Given (sl_default_indicator m),
      d_sl_session = Given (map dump_SessionModel (sl_session m)),
      d_sl_id = dump_opt StrId (sl_id m)\<rparr>"

subsection \<open>SecurityModel\<close>

definition dump_SecurityModel :: "SecurityModel \<Rightarrow> SecurityDict" where
  "dump_SecurityModel m =
     \<lparr>d_k = Given (sec_k m),
      d_amf = Given (sec_amf m),
      d_op = dump_opt (\<lambda>s. s) (sec_op m),
      d_opc = dump_opt (\<lambda>s. s) (sec_opc m)\<rparr>"

subsection \<open>SubscriberSchema\<close>

record SubscriberSchema =
  sub_id :: "string option"
  sub_schema_version :: int
  sub_imsi :: string
  sub_name :: "string option"
  sub_msisdn :: "string list"
  sub_imeisv :: "string list"
  sub_mme_host :: "string list"
  sub_mm_realm :: "string list"
  sub_purge_flag :: "bool list"
  sub_slice :: "SliceModel list"
  sub_security :: SecurityModel
  sub_ambr :: AmbrModel
  sub_access_restriction_data :: int
  sub_network_access_mode :: int
  sub_subscriber_status :: int
  sub_operator_determined_barring :: int
  sub_subscribed_rau_tau_timer :: int
  sub_v :: int

text \<open>
  A subscriber dictionary: the body of a request, the argument of \<^verbatim>\<open>insert_one\<close> and
  \<^verbatim>\<open>replace_one\<close>, and a document of the collection. \<open>d_id\<close> is the key \<^verbatim>\<open>_id\<close> and \<open>d_v\<close> the
  key \<^verbatim>\<open>__v\<close>.
\<close>

record SubscriberDict =
  d_id :: "bson_id field"
  d_schema_version :: "int field"
  d_imsi :: "string field"
  d_name :: "string field"
  d_msisdn :: "string list field"
  d_imeisv :: "string list field"
  d_mme_host :: "string list field"
  d_mm_realm :: "string list field"
  d_purge_flag :: "bool list field"
  d_slice :: "SliceDict list field"
  d_security :: "SecurityDict field"
  d_ambr :: "AmbrDict field"
  d_access_restriction_data :: "int field"
  d_network_access_mode :: "int field"
  d_subscriber_status :: "int field"
  d_operator_determined_barring :: "int field"
  d_subscribed_rau_tau_timer :: "int field"
  d_v :: "int field"

text \<open>
  \<^verbatim>\<open>SubscriberSchema.model_validate\<close>. \<open>gen (i # p)\<close> is the fresh identifier \<open>gen p\<close> of the
  \<open>i\<close>-th slice.
\<close>

definition validate_SubscriberSchema ::
  "(nat list \<Rightarrow> string) \<Rightarrow> SubscriberDict \<Rightarrow> validation_error + SubscriberSchema" where
  "validate_SubscriberSchema gen d =
     bindV (optional None PyObjectId (d_id d)) (\<lambda>i.
     bindV (with_default 1 accept (d_schema_version d)) (\<lambda>sv.
     bindV (required ImsiStr (d_imsi d)) (\<lambda>imsi.
     bindV (optional None (max_length_field 100) (d_name d)) (\<lambda>name.
     bindV (with_default [] accept (d_msisdn d)) (\<lambda>msisdn.
     bindV (with_default [] accept (d_imeisv d)) (\<lambda>imeisv.
     bindV (with_default [] accept (d_mme_host d)) (\<lambda>mme_host.
     bindV (with_default [] accept (d_mm_realm d)) (\<lambda>mm_realm.
     bindV (with_default [] accept (d_purge_flag d)) (\<lambda>purge_flag.
     bindV (required (validate_each (\<lambda>i. validate_SliceModel (\<lambda>p. gen (i # p))) 0) (d_slice d)) (\<lambda>slice.
     bindV (required validate_SecurityModel (d_security d)) (\<lambda>security.
     bindV (with_default default_AmbrModel validate_AmbrModel (d_ambr d)) (\<lambda>ambr.
     bindV (with_default 32 accept (d_access_restriction_data d)) (\<lambda>ard.
     bindV (with_default 0 accept (d_network_access_mode d)) (\<lambda>nam.
     bindV (with_default 0 accept (d_subscriber_status d)) (\<lambda>st.
     bindV (with_default 0 accept (d_operator_determined_barring d)) (\<lambda>odb.
     bindV (with_default 12 accept (d_subscribed_rau_tau_timer d)) (\<lambda>timer.
     bindV (with_default 0 accept (d_v d)) (\<lambda>v.
     Inr \<lparr>sub_id = i, sub_schema_version = sv, sub_imsi = imsi, sub_name = name,
          sub_msisdn = msisdn, sub_imeisv = imeisv, sub_mme_host = mme_host,
          sub_mm_realm = mm_realm, sub_purge_flag = purge_flag, sub_slice = slice,
          sub_security = security, sub_ambr = ambr, sub_access_restriction_data = ard,
          sub_network_access_mode = nam, sub_subscriber_status = st,
          sub_operator_determined_barring = odb, sub_subscribed_rau_tau_timer = timer,
          sub_v = v\<rparr>))))))))))))))))))"

text \<open>\<^verbatim>\<open>model_dump(by_alias=True, exclude_none=True)\<close>\<close>

definition model_dump :: "SubscriberSchema \<Rightarrow> SubscriberDict" where
  "model_dump m =
     \<lparr>d_id = dump_opt StrId (sub_id m),
      d_schema_version = Given (sub_schema_version m),
      d_imsi = Given (sub_imsi m),
      d_name = dump_opt (\<lambda>s. s) (sub_name m),
      d_msisdn = Given (sub_msisdn m),
      d_imeisv = Given (sub_imeisv m),
      d_mme_host = Given (sub_mme_host m),
      d_mm_realm = Given (sub_mm_realm m),
      d_purge_flag = Given (sub_purge_flag m),
      d_slice = Given (map dump_SliceModel (sub_slice m)),
      d_security = Given (dump_SecurityModel (sub_security m)),
      d_ambr = Given (dump_AmbrModel (sub_ambr m)),
      d_access_restriction_data = Given (sub_access_restriction_data m),
      d_network_access_mode = Given (sub_network_access_mode m),
      d_subscriber_status = Given (sub_subscriber_status m),
      d_operator_determined_barring = Given (sub_operator_determined_barring m),
      d_subscribed_rau_tau_timer = Given (sub_subscribed_rau_tau_timer m),
      d_v = Given (sub_v m)\<rparr>"

text \<open>\<^verbatim>\<open>model_dump(by_alias=True, exclude={"id"}, exclude_none=True)\<close>\<close>

definition model_dump_exclude_id :: "SubscriberSchema \<Rightarrow> SubscriberDict" where
  "model_dump_exclude_id m = (model_dump m)\<lparr>d_id := Absent\<rparr>"

section \<open>The document store\<close>

text \<open>
  A character of a string is a code point below 256; text outside that range is not part
  of the model.
\<close>

subsection \<open>What the driver can encode\<close>

text \<open>
  The driver encodes every dictionary it sends, documents and filters alike, as BSON. An
  \<^verbatim>\<open>int\<close> that does not fit in eight bytes makes it raise \<^verbatim>\<open>OverflowError\<close>, and a key with a
  NUL character \<^verbatim>\<open>InvalidDocument\<close>, before anything reaches the server. pydantic accepts an
  \<^verbatim>\<open>int\<close> of any size, so a validated record can hold such a value.
\<close>

definition fits_int64 :: "int \<Rightarrow> bool" where
  "fits_int64 v = (- (2 ^ 63) \<le> v \<and> v < 2 ^ 63)"

fun field_ok :: "('a \<Rightarrow> bool) \<Rightarrow> 'a field \<Rightarrow> bool" where
  "field_ok P (Given x) = P x"
| "field_ok P _ = True"

definition key_ok :: "string \<Rightarrow> bool" where
  "key_ok k = (CHR 0x00 \<notin> set k)"

fun json_encodable :: "json \<Rightarrow> bool" where
  "json_encodable (JNum v) = fits_int64 v"
| "json_encodable (JArr xs) = list_all json_encodable xs"
| "json_encodable (JObj kvs) = list_all (\<lambda>kv. key_ok (fst kv) \<and> json_encodable (snd kv)) kvs"
| "json_encodable _ = True"

definition encodable_AmbrValue :: "AmbrValueDict \<Rightarrow> bool" where
  "encodable_AmbrValue d = (field_ok fits_int64 (d_av_value d) \<and> field_ok fits_int64 (d_av_unit d))"

definition encodable_Ambr :: "AmbrDict \<Rightarrow> bool" where
  "encodable_Ambr d =
     (field_ok encodable_AmbrValue (d_am_downlink d) \<and> field_ok encodable_AmbrValue (d_am_uplink d))"

definition encodable_Arp :: "ArpDict \<Rightarrow> bool" where
  "encodable_Arp d =
     (field_ok fits_int64 (d_arp_priority_level d)
      \<and> field_ok fits_int64 (d_arp_pre_emption_capability d)
      \<and> field_ok fits_int64 (d_arp_pre_emption_vulnerability d))"

definition encodable_Qos :: "QosDict \<Rightarrow> bool" where
  "encodable_Qos d = (field_ok fits_int64 (d_qos_index d) \<and> field_ok encodable_Arp (d_qos_arp d))"

definition encodable_Session :: "SessionDict \<Rightarrow> bool" where
  "encodable_Session d =
     (field_ok fits_int64 (d_se_type d)
      \<and> field_ok encodable_Qos (d_se_qos d)
      \<and> field_ok encodable_Ambr (d_se_ambr d)
      \<and> field_ok (list_all (list_all (\<lambda>kv. key_ok (fst kv) \<and> json_encodable (snd kv))))
            (d_se_pcc_rule d))"

definition encodable_Slice :: "SliceDict \<Rightarrow> bool" where
  "encodable_Slice d =
     (field_ok fits_int64 (d_sl_sst d) \<and> field_ok (list_all encodable_Session) (d_sl_session d))"

definition encodable :: "SubscriberDict \<Rightarrow> bool" where
  "encodable d =
     (field_ok fits_int64 (d_schema_version d)
      \<and> field_ok (list_all encodable_Slice) (d_slice d)
      \<and> field_ok encodable_Ambr (d_ambr d)
      \<and> field_ok fits_int64 (d_access_restriction_data d)
      \<and> field_ok fits_int64 (d_network_access_mode d)
      \<and> field_ok fits_int64 (d_subscriber_status d)
      \<and> field_ok fits_int64 (d_operator_determined_barring d)
      \<and> field_ok fits_int64 (d_subscribed_rau_tau_timer d)
      \<and> field_ok fits_int64 (d_v d))"

subsection \<open>The collection\<close>

text \<open>What index there is on \<^verbatim>\<open>imsi\<close>: none, the unique one, or one with other options.\<close>

datatype imsi_index = NoIndex | UniqueIndex | OtherIndex

text \<open>
  The collection \<^verbatim>\<open>subscribers\<close> as the handlers see it: its documents in storage order;
  the index on \<^verbatim>\<open>imsi\<close> (the index on \<^verbatim>\<open>_id\<close> always exists); whether the connected user may
  create an index; and the documents the server accepts for this collection apart from its
  unique indexes, that is by its validator, if it has one, and by the server's limits on a
  document (its size, its depth, its field names).
\<close>

record collection =
  docs :: "SubscriberDict list"
  imsi_index :: imsi_index
  may_create_index :: bool
  accepts :: "SubscriberDict \<Rightarrow> bool"

definition unique_imsi :: "collection \<Rightarrow> bool" where
  "unique_imsi c = (imsi_index c = UniqueIndex)"

text \<open>
  The errors of the driver. \<^verbatim>\<open>DriverEncodingError\<close> is the \<^verbatim>\<open>OverflowError\<close> or
  \<^verbatim>\<open>InvalidDocument\<close> of the encoder; \<^verbatim>\<open>DuplicateKeyError\<close> is the write error of a unique
  index; \<^verbatim>\<open>WriteError\<close> is any other write error and \<^verbatim>\<open>OperationFailure\<close> any other failure
  of a command, each with its message.
\<close>

datatype mongo_error =
    DriverEncodingError
  | DuplicateKeyError
  | WriteError string
  | OperationFailure string

text \<open>The key of a document in the index on \<^verbatim>\<open>imsi\<close>: a missing field is indexed as \<^verbatim>\<open>null\<close>.\<close>

fun imsi_key :: "SubscriberDict \<Rightarrow> string option" where
  "imsi_key d = (case d_imsi d of Given s \<Rightarrow> Some s | _ \<Rightarrow> None)"

text \<open>
  \<^verbatim>\<open>collection.create_index("imsi", unique=True)\<close>. It fails when the user may not create
  indexes, when there is an index on \<^verbatim>\<open>imsi\<close> with other options, and when the index has to be
  built and two documents have the same key; there is nothing to do when the unique index
  exists.
\<close>

definition create_index_imsi :: "collection \<Rightarrow> mongo_error + collection" where
  "create_index_imsi c =
     (if \<not> may_create_index c then Inl (OperationFailure ''not authorized'')
      else case imsi_index c of
             UniqueIndex \<Rightarrow> Inr c
           | OtherIndex \<Rightarrow> Inl (OperationFailure ''index options conflict'')
           | NoIndex \<Rightarrow>
               if distinct (map imsi_key (docs c)) then Inr (c\<lparr>imsi_index := UniqueIndex\<rparr>)
               else Inl DuplicateKeyError)"

text \<open>
  \<^verbatim>\<open>collection.insert_one(document)\<close>. The driver adds \<^verbatim>\<open>_id = ObjectId()\<close> to a document
  without \<^verbatim>\<open>_id\<close> (\<open>oid\<close> is that fresh identifier) and encodes it; the server then checks the
  document against the rules of the collection and against the unique indexes. The result
  is the new collection and \<^verbatim>\<open>inserted_id\<close>.
\<close>

definition insert_one ::
  "collection \<Rightarrow> SubscriberDict \<Rightarrow> string \<Rightarrow> mongo_error + (collection \<times> bson_id field)" where
  "insert_one c document oid =
     (let d = (case d_id document of
                 Absent \<Rightarrow> document\<lparr>d_id := Given (ObjectId oid)\<rparr>
               | _ \<Rightarrow> document) in
      if \<not> encodable d then Inl DriverEncodingError
      else if \<not> accepts c d then Inl (WriteError ''document refused by the collection'')
      else if d_id d \<in> set (map d_id (docs c)) then Inl DuplicateKeyError
      else if unique_imsi c \<and> imsi_key d \<in> set (map imsi_key (docs c)) then Inl DuplicateKeyError
      else Inr (c\<lparr>docs := docs c @ [d]\<rparr>, d_id d))"

text \<open>
  \<^verbatim>\<open>collection.replace_one({"imsi": imsi}, replacement)\<close>, without upsert. The driver encodes
  the replacement. The first document whose \<^verbatim>\<open>imsi\<close> equals the filter value is replaced and
  keeps its \<^verbatim>\<open>_id\<close>; a replacement that carries another \<^verbatim>\<open>_id\<close> is refused, since \<^verbatim>\<open>_id\<close> is
  immutable. The result is the new collection and \<^verbatim>\<open>matched_count\<close>.
\<close>

definition replace_one ::
  "collection \<Rightarrow> string \<Rightarrow> SubscriberDict \<Rightarrow> mongo_error + (collection \<times> nat)" where
  "replace_one c imsi replacement =
     (let before = takeWhile (\<lambda>d. d_imsi d \<noteq> Given imsi) (docs c) in
      if \<not> encodable replacement then Inl DriverEncodingError
      else
        case dropWhile (\<lambda>d. d_imsi d \<noteq> Given imsi) (docs c) of
          [] \<Rightarrow> Inr (c, 0)
        | old # after \<Rightarrow>
            if d_id replacement \<noteq> Absent \<and> d_id replacement \<noteq> d_id old
            then Inl (WriteError ''the (immutable) field _id was found to have been altered'')
            else if \<not> accepts c (replacement\<lparr>d_id := d_id old\<rparr>)
            then Inl (WriteError ''document refused by the collection'')
            else if unique_imsi c \<and> imsi_key replacement \<in> set (map imsi_key (before @ after))
            then Inl DuplicateKeyError
            else Inr (c\<lparr>docs := before @ [replacement\<lparr>d_id := d_id old\<rparr>] @ after\<rparr>, 1))"

text \<open>\<^verbatim>\<open>collection.delete_one({"imsi": imsi})\<close>: the result is the new collection and \<^verbatim>\<open>deleted_count\<close>.\<close>

definition delete_one :: "collection \<Rightarrow> string \<Rightarrow> collection \<times> nat" where
  "delete_one c imsi =
     (case dropWhile (\<lambda>d. d_imsi d \<noteq> Given imsi) (docs c) of
        [] \<Rightarrow> (c, 0)
      | old # after \<Rightarrow>
          (c\<lparr>docs := takeWhile (\<lambda>d. d_imsi d \<noteq> Given imsi) (docs c) @ after\<rparr>, 1))"

subsection \<open>Queries\<close>

text \<open>
  The operator \<^verbatim>\<open>$regex\<close> with \<^verbatim>\<open>$options: "i"\<close> reads its argument as a regular expression and
  searches the field for a match, ignoring case. The server refuses a pattern with a NUL
  character. A pattern of at most 32764 ASCII characters, each an ordinary character or a
  dot, is matched here. What the engine of the database does with any other pattern (one
  with another metacharacter, with a character outside ASCII, or a longer one) is a
  parameter: it rejects the pattern as invalid (\<open>None\<close>) or gives the strings the pattern
  matches.
\<close>

type_synonym regex_engine = "string \<Rightarrow> (string \<Rightarrow> bool) option"

datatype atom = Lit char | AnyChar

definition is_meta :: "char \<Rightarrow> bool" where
  "is_meta c = (c \<in> set (CHR 0x5C # ''^$.[]|()?*+{}''))"

fun parse_atoms :: "string \<Rightarrow> atom list option" where
  "parse_atoms [] = Some []"
| "parse_atoms (c # cs) =
     (if c = CHR ''.'' then map_option ((#) AnyChar) (parse_atoms cs)
      else if is_meta c \<or> (128::nat) \<le> of_char c then None
      else map_option ((#) (Lit c)) (parse_atoms cs))"

text \<open>
  Case folding of the letters A to Z; every other character is left as it is. No character
  from 128 to 255 has an ASCII letter as its other case, so this is how an ASCII character
  of a pattern compares with any character of a name.
\<close>

definition to_lower :: "char \<Rightarrow> char" where
  "to_lower c =
     (if (65::nat) \<le> of_char c \<and> (of_char c :: nat) \<le> 90 then char_of (of_char c + (32::nat)) else c)"

fun atom_matches :: "atom \<Rightarrow> char \<Rightarrow> bool" where
  "atom_matches (Lit c) x = (to_lower c = to_lower x)"
| "atom_matches AnyChar x = (x \<noteq> CHR 0x0A)"

fun matches_at_start :: "atom list \<Rightarrow> string \<Rightarrow> bool" where
  "matches_at_start [] s = True"
| "matches_at_start (a # as) [] = False"
| "matches_at_start (a # as) (x # xs) = (atom_matches a x \<and> matches_at_start as xs)"

fun regex_search :: "atom list \<Rightarrow> string \<Rightarrow> bool" where
  "regex_search as [] = matches_at_start as []"
| "regex_search as (x # xs) = (matches_at_start as (x # xs) \<or> regex_search as xs)"

definition regex_i :: "regex_engine \<Rightarrow> string \<Rightarrow> (string \<Rightarrow> bool) option" where
  "regex_i engine pattern =
     (if CHR 0x00 \<in> set pattern then None
      else if 32764 < length pattern then engine pattern
      else case parse_atoms pattern of
             Some as \<Rightarrow> Some (regex_search as)
           | None \<Rightarrow> engine pattern)"

text \<open>
  The queries \<^verbatim>\<open>get_subscribers\<close> builds: an optional \<^verbatim>\<open>{"name": {"$regex": p, "$options": "i"}}\<close>
  and an optional \<^verbatim>\<open>{"slice": {"$elemMatch": {"sst": x, "sd": s}}}\<close> whose \<^verbatim>\<open>sd\<close> is optional.
\<close>

record query =
  q_name :: "string option"
  q_slice :: "(int \<times> string option) option"

fun slice_filter_matches :: "int \<times> string option \<Rightarrow> SliceDict \<Rightarrow> bool" where
  "slice_filter_matches (sst, None) s = (d_sl_sst s = Given sst)"
| "slice_filter_matches (sst, Some sd) s = (d_sl_sst s = Given sst \<and> d_sl_sd s = Given sd)"

fun elemMatch :: "int \<times> string option \<Rightarrow> SubscriberDict \<Rightarrow> bool" where
  "elemMatch f d = (case d_slice d of Given sls \<Rightarrow> list_ex (slice_filter_matches f) sls | _ \<Rightarrow> False)"

fun name_matches :: "(string \<Rightarrow> bool) \<Rightarrow> SubscriberDict \<Rightarrow> bool" where
  "name_matches m d = (case d_name d of Given n \<Rightarrow> m n | _ \<Rightarrow> False)"

text \<open>
  \<^verbatim>\<open>collection.find(query).skip(offset).limit(limit)\<close>, read to its end. The driver encodes
  the filter and the two numbers first.
\<close>

definition find_skip_limit ::
  "regex_engine \<Rightarrow> collection \<Rightarrow> query \<Rightarrow> nat \<Rightarrow> nat \<Rightarrow> mongo_error + SubscriberDict list" where
  "find_skip_limit engine c q offset limit =
     (if (case q_slice q of None \<Rightarrow> False | Some f \<Rightarrow> \<not> fits_int64 (fst f))
         \<or> \<not> fits_int64 (int offset) \<or> \<not> fits_int64 (int limit)
      then Inl DriverEncodingError
      else
        case (case q_name q of
                None \<Rightarrow> Some (\<lambda>d. True)
              | Some p \<Rightarrow> map_option name_matches (regex_i engine p)) of
          None \<Rightarrow> Inl (OperationFailure ''Regular expression is invalid'')
        | Some name_ok \<Rightarrow>
            Inr (take limit (drop offset
              (filter (\<lambda>d. name_ok d \<and> (case q_slice q of None \<Rightarrow> True | Some f \<Rightarrow> elemMatch f d))
                 (docs c)))))"

section \<open>Persistence gateway (services/mongodb.py)\<close>

record MongoDBService =
  svc_host :: string
  svc_port :: int
  svc_database :: string
  svc_user :: "string option"
  svc_password :: "string option"
  svc_client :: bool
  svc_indexes_initialized :: bool

text \<open>
  \<^verbatim>\<open>_ensure_indexes\<close>: a failure to create the index is logged and nothing else; the flag
  stays unset.
\<close>

definition ensure_indexes :: "MongoDBService \<Rightarrow> collection \<Rightarrow> MongoDBService \<times> collection" where
  "ensure_indexes self c =
     (if svc_indexes_initialized self then (self, c)
      else case create_index_imsi c of
             Inr c' \<Rightarrow> (self\<lparr>svc_indexes_initialized := True\<rparr>, c')
           | Inl exc \<Rightarrow> (self, c))"

text \<open>\<^verbatim>\<open>MongoDBService.get_subscriber_collection\<close>: the client is created on first use.\<close>

definition service_get_subscriber_collection ::
  "MongoDBService \<Rightarrow> collection \<Rightarrow> MongoDBService \<times> collection" where
  "service_get_subscriber_collection self c = ensure_indexes (self\<lparr>svc_client := True\<rparr>) c"

section \<open>Subscriber endpoints (routers/core/subscribers.py)\<close>

text \<open>
  What a handler raises. An \<^verbatim>\<open>HTTPException\<close> becomes the response with its status code and
  detail; \<^verbatim>\<open>RequestValidationError\<close> is the refusal of a query parameter (422); the other
  exceptions are not caught by any handler and leave the endpoint as they are.
\<close>

datatype handler_exception =
    HTTPException nat string
  | RequestValidationError
  | RuntimeError string
  | UncaughtValidationError
  | UncaughtMongoError mongo_error

text \<open>
  The state the endpoints work on: the service the router module holds (\<^verbatim>\<open>_mongodb_service\<close>,
  unset until startup) and the collection in the database.
\<close>

record world =
  mongodb_service :: "MongoDBService option"
  db :: collection

text \<open>The dependency \<^verbatim>\<open>get_subscriber_collection\<close> of every endpoint.\<close>

definition get_subscriber_collection :: "world \<Rightarrow> handler_exception + world" where
  "get_subscriber_collection w =
     (case mongodb_service w of
        None \<Rightarrow> Inl (RuntimeError ''MongoDB service not initialized'')
      | Some service \<Rightarrow>
          (case service_get_subscriber_collection service (db w) of
             (service', c) \<Rightarrow> Inr (w\<lparr>mongodb_service := Some service', db := c\<rparr>)))"

subsection \<open>GET /core/subscribers\<close>

text \<open>The query \<^verbatim>\<open>get_subscribers\<close> builds from its filters, with Python's truth values.\<close>

definition build_query :: "string option \<Rightarrow> int option \<Rightarrow> string option \<Rightarrow> query" where
  "build_query name sst sd =
     \<lparr>q_name = (if truthy name then name else None),
      q_slice = (case sst of
                   None \<Rightarrow> None
                 | Some x \<Rightarrow> Some (x, if truthy sd then sd else None))\<rparr>"

text \<open>
  \<^verbatim>\<open>limit: int = Query(100, ge=1)\<close> and \<^verbatim>\<open>offset: int = Query(0, ge=0)\<close>: \<open>None\<close> is a parameter
  the request leaves out. \<open>gen (n # p)\<close> is the fresh identifier \<open>p\<close> of the \<open>n\<close>-th
  document that is validated.
\<close>

definition get_subscribers ::
  "regex_engine \<Rightarrow> (nat list \<Rightarrow> string) \<Rightarrow> string option \<Rightarrow> int option \<Rightarrow> string option
     \<Rightarrow> int option \<Rightarrow> int option \<Rightarrow> world \<Rightarrow> (handler_exception + SubscriberSchema list) \<times> world" where
  "get_subscribers engine gen name sst sd limit offset w =
     (case get_subscriber_collection w of
        Inl exc \<Rightarrow> (Inl exc, w)
      | Inr w' \<Rightarrow>
          (let lim = (case limit of None \<Rightarrow> 100 | Some l \<Rightarrow> l);
               off = (case offset of None \<Rightarrow> 0 | Some k \<Rightarrow> k) in
           if lim < 1 \<or> off < 0 then (Inl RequestValidationError, w')
           else
             (case find_skip_limit engine (db w') (build_query name sst sd) (nat off) (nat lim) of
                Inl exc \<Rightarrow> (Inl (UncaughtMongoError exc), w')
              | Inr documents \<Rightarrow>
                  (case validate_each (\<lambda>n. validate_SubscriberSchema (\<lambda>p. gen (n # p))) 0 documents of
                     Inl exc \<Rightarrow> (Inl UncaughtValidationError, w')
                   | Inr subscribers \<Rightarrow> (Inr subscribers, w')))))"

subsection \<open>POST /core/subscribers\<close>

text \<open>
  \<open>oid\<close> is the \<^verbatim>\<open>ObjectId\<close> the driver generates for the new document. After the insert the
  dictionary holds that identifier as a string and is validated again.
\<close>

definition create_subscriber ::
  "(nat list \<Rightarrow> string) \<Rightarrow> SubscriberSchema \<Rightarrow> string \<Rightarrow> world
     \<Rightarrow> (handler_exception + SubscriberSchema) \<times> world" where
  "create_subscriber gen subscriber_data oid w =
     (case get_subscriber_collection w of
        Inl exc \<Rightarrow> (Inl exc, w)
      | Inr w' \<Rightarrow>
          (let subscriber_dict = model_dump_exclude_id subscriber_data in
           case insert_one (db w') subscriber_dict oid of
             Inr (c, inserted_id) \<Rightarrow>
               (case validate_SubscriberSchema gen
                       (subscriber_dict\<lparr>d_id := Given (StrId (case inserted_id of
                                                                Given i \<Rightarrow> str_of_id i
                                                              | _ \<Rightarrow> ''None''))\<rparr>) of
                  Inr created_subscriber \<Rightarrow> (Inr created_subscriber, w'\<lparr>db := c\<rparr>)
                | Inl exc \<Rightarrow> (Inl UncaughtValidationError, w'\<lparr>db := c\<rparr>))
           | Inl DuplicateKeyError \<Rightarrow>
               (Inl (HTTPException 409
                  (''Subscriber with IMSI '' @ sub_imsi subscriber_data @ '' already exists'')), w')
           | Inl exc \<Rightarrow> (Inl (UncaughtMongoError exc), w')))"

subsection \<open>DELETE /core/subscribers/{imsi}\<close>

definition delete_subscriber :: "string \<Rightarrow> world \<Rightarrow> (handler_exception + json) \<times> world" where
  "delete_subscriber imsi w =
     (case get_subscriber_collection w of
        Inl exc \<Rightarrow> (Inl exc, w)
      | Inr w' \<Rightarrow>
          (case delete_one (db w') imsi of
             (c, deleted_count) \<Rightarrow>
               if deleted_count = 1
               then (Inr (JObj [(''status'', JStr ''success''),
                                (''message'', JStr (''Subscriber '' @ imsi @ '' deleted''))]),
                     w'\<lparr>db := c\<rparr>)
               else (Inl (HTTPException 404 (''Subscriber with IMSI '' @ imsi @ '' not found'')),
                     w'\<lparr>db := c\<rparr>)))"

subsection \<open>PUT /core/subscribers/{imsi}\<close>

definition update_subscriber ::
  "string \<Rightarrow> SubscriberSchema \<Rightarrow> world \<Rightarrow> (handler_exception + json) \<times> world" where
  "update_subscriber imsi updated_data w =
     (case get_subscriber_collection w of
        Inl exc \<Rightarrow> (Inl exc, w)
      | Inr w' \<Rightarrow>
          (let update_dict = (model_dump updated_data)\<lparr>d_imsi := Given imsi\<rparr> in
           case replace_one (db w') imsi update_dict of
             Inl DuplicateKeyError \<Rightarrow>
               (Inl (HTTPException 409
                  (''Subscriber IMSI '' @ imsi @ '' conflicts with an existing subscriber'')), w')
           | Inl exc \<Rightarrow> (Inl (UncaughtMongoError exc), w')
           | Inr (c, matched_count) \<Rightarrow>
               if matched_count = 0
               then (Inl (HTTPException 404 (''Subscriber with IMSI '' @ imsi @ '' not found'')),
                     w'\<lparr>db := c\<rparr>)
               else (Inr (JObj [(''status'', JStr ''success''),
                                (''message'', JStr (''Subscriber '' @ imsi @ '' updated''))]),
                     w'\<lparr>db := c\<rparr>)))"

subsection \<open>The filters in the words of the specification\<close>

text \<open>A stored record has at least one slice whose \<^verbatim>\<open>sst\<close> is \<open>x\<close>.\<close>

fun has_slice_with_sst :: "int \<Rightarrow> SubscriberDict \<Rightarrow> bool" where
  "has_slice_with_sst x d =
     (case d_slice d of
        Given sls \<Rightarrow> list_ex (\<lambda>s. d_sl_sst s = Given x) sls
      | _ \<Rightarrow> False)"

text \<open>An ASCII character other than NUL that is no metacharacter of regular expressions.\<close>

definition is_plain :: "char \<Rightarrow> bool" where
  "is_plain c = ((0::nat) < of_char c \<and> (of_char c :: nat) < 128 \<and> \<not> is_meta c)"

text \<open>
  A stored record has a name that contains \<open>s\<close> as a run of consecutive characters,
  letters compared without regard to case.
\<close>

fun name_contains :: "string \<Rightarrow> SubscriberDict \<Rightarrow> bool" where
  "name_contains s d =
     (case d_name d of
        Given n \<Rightarrow> sublist (map to_lower s) (map to_lower n)
      | _ \<Rightarrow> False)"

text \<open>The records the endpoint returns for a list of stored documents: each one validated.\<close>

definition validated ::
  "(nat list \<Rightarrow> string) \<Rightarrow> SubscriberDict list \<Rightarrow> handler_exception + SubscriberSchema list" where
  "validated gen documents =
     (case validate_each (\<lambda>n. validate_SubscriberSchema (\<lambda>p. gen (n # p))) 0 documents of
        Inl exc \<Rightarrow> Inl UncaughtValidationError
      | Inr subscribers \<Rightarrow> Inr subscribers)"

text \<open>The records of a response; none when the request failed.\<close>

definition returned :: "handler_exception + 'a list \<Rightarrow> 'a list" where
  "returned r = (case r of Inl exc \<Rightarrow> [] | Inr xs \<Rightarrow> xs)"

text \<open>A returned record has a name that contains \<open>s\<close>, letters compared without regard to case.\<close>

fun record_name_contains :: "string \<Rightarrow> SubscriberSchema \<Rightarrow> bool" where
  "record_name_contains s m =
     (case sub_name m of
        Some n \<Rightarrow> sublist (map to_lower s) (map to_lower n)
      | None \<Rightarrow> False)"

section \<open>Example values\<close>

text \<open>A generator of fresh identifiers: hexadecimal digits that end in the call path.\<close>

definition example_gen :: "nat list \<Rightarrow> string" where
  "example_gen p = ''0000000000000000000000'' @ map (\<lambda>n. if n = 0 then CHR ''a'' else CHR ''b'') p"

definition empty_SessionDict :: SessionDict where
  "empty_SessionDict =
     \<lparr>d_se_name = Absent, d_se_type = Absent, d_se_qos = Absent, d_se_ambr = Absent,
      d_se_ue = Absent, d_se_pcc_rule = Absent, d_se_lbo_roaming_allowed = Absent,
      d_se_id = Absent\<rparr>"

definition empty_SliceDict :: SliceDict where
  "empty_SliceDict =
     \<lparr>d_sl_sst = Absent, d_sl_sd = Absent, d_sl_default_indicator = Absent,
      d_sl_session = Absent, d_sl_id = Absent\<rparr>"

definition empty_SubscriberDict :: SubscriberDict where
  "empty_SubscriberDict =
     \<lparr>d_id = Absent, d_schema_version = Absent, d_imsi = Absent, d_name = Absent,
      d_msisdn = Absent, d_imeisv = Absent, d_mme_host = Absent, d_mm_realm = Absent,
      d_purge_flag = Absent, d_slice = Absent, d_security = Absent, d_ambr = Absent,
      d_access_restriction_data = Absent, d_network_access_mode = Absent,
      d_subscriber_status = Absent, d_operator_determined_barring = Absent,
      d_subscribed_rau_tau_timer = Absent, d_v = Absent\<rparr>"

definition example_security :: SecurityDict where
  "example_security =
     \<lparr>d_k = Given ''465B5CE8B199B49FAA5F0A2EE238A6BC'', d_amf = Given ''8000'',
      d_op = Absent, d_opc = Given ''E8ED289DEBA952E4283B54E88E6183CA''\<rparr>"

text \<open>A slice with the given service type and one session named \<^verbatim>\<open>internet\<close>.\<close>

definition example_slice :: "int \<Rightarrow> SliceDict" where
  "example_slice sst =
     empty_SliceDict\<lparr>d_sl_sst := Given sst, d_sl_sd := Given ''000001'',
       d_sl_session := Given [empty_SessionDict\<lparr>d_se_name := Given ''internet''\<rparr>]\<rparr>"

text \<open>A request body with the given IMSI, name and slices.\<close>

definition example_subscriber :: "string \<Rightarrow> string field \<Rightarrow> SliceDict list \<Rightarrow> SubscriberDict" where
  "example_subscriber imsi name slices =
     empty_SubscriberDict\<lparr>d_imsi := Given imsi, d_name := name, d_slice := Given slices,
       d_security := Given example_security\<rparr>"

text \<open>A stored document: a subscriber dictionary with the identifier the driver gave it.\<close>

definition stored_subscriber ::
  "string \<Rightarrow> string \<Rightarrow> string field \<Rightarrow> SliceDict list \<Rightarrow> SubscriberDict" where
  "stored_subscriber oid imsi name slices =
     (example_subscriber imsi name slices)\<lparr>d_id := Given (ObjectId oid)\<rparr>"

definition example_service :: MongoDBService where
  "example_service =
     \<lparr>svc_host = ''mongo'', svc_port = 27017, svc_database = ''open5gs'', svc_user = None,
      svc_password = None, svc_client = False, svc_indexes_initialized = False\<rparr>"

text \<open>
  A started service in front of a collection with the given documents, with or without the
  unique index; its user may create indexes and the collection has no rules of its own.
\<close>

definition example_world :: "SubscriberDict list \<Rightarrow> bool \<Rightarrow> world" where
  "example_world documents indexed =
     \<lparr>mongodb_service = Some example_service,
      db = \<lparr>docs = documents,
            imsi_index = (if indexed then UniqueIndex else NoIndex),
            may_create_index = True,
            accepts = (\<lambda>d. True)\<rparr>\<rparr>"

text \<open>An engine that rejects every pattern handed to it.\<close>

definition rejecting_engine :: regex_engine where
  "rejecting_engine p = None"

text \<open>The record a request body validates to; the body is assumed to be valid.\<close>

definition example_record :: "SubscriberDict \<Rightarrow> SubscriberSchema" where
  "example_record body = projr (validate_SubscriberSchema example_gen body)"

text \<open>Fifteen digits that end in the decimal digits of a number below 1000.\<close>

definition imsi_of_nat :: "nat \<Rightarrow> string" where
  "imsi_of_nat n =
     ''001010000000'' @ map (\<lambda>k. ''0123456789'' ! k) [n div 100 mod 10, n div 10 mod 10, n mod 10]"

text \<open>The given number of stored documents, each with its own IMSI and one slice of service type 1.\<close>

definition many_stored :: "nat \<Rightarrow> SubscriberDict list" where
  "many_stored n =
     map (\<lambda>k. stored_subscriber (imsi_of_nat k) (imsi_of_nat k) Absent [example_slice 1]) [0..<n]"

text \<open>Three stored documents: Ann with slice 1, Bob with slices 2 and 1, and one without a name.\<close>

definition three_stored :: "SubscriberDict list" where
  "three_stored =
     [stored_subscriber ''65a000000000000000000001'' ''001010000000001'' (Given ''Ann'')
        [example_slice 1],
      stored_subscriber ''65a000000000000000000002'' ''001010000000002'' (Given ''Bob'')
        [example_slice 2, example_slice 1],
      stored_subscriber ''65a000000000000000000003'' ''001010000000003'' Absent
        [example_slice 3]]"

section \<open>Properties of the forwarding layer\<close>

lemma proxy_request_sent:
  "sent (snd (proxy_request d m ps hs net)) =
     sent net @ [\<lparr>req_method = m, req_url = d, req_params = ps, req_headers = hs\<rparr>]"
  by (simp add: proxy_request_def client_request_def Let_def response_json_def
      split: upstream.splits sum.splits body_text.splits)

lemma proxy_request_refuses:
  "next_upstream d m ps hs net = Refuses msg \<Longrightarrow>
     fst (proxy_request d m ps hs net) = (bad_gateway_connect_body d, 502)"
  by (simp add: proxy_request_def client_request_def next_upstream_def Let_def)

lemma proxy_request_timeout:
  "next_upstream d m ps hs net = Replies delay r \<Longrightarrow> delay > 5 \<Longrightarrow>
     fst (proxy_request d m ps hs net) = (gateway_timeout_body d, 504)"
  by (simp add: proxy_request_def client_request_def next_upstream_def Let_def)

lemma proxy_request_fails:
  "next_upstream d m ps hs net = Fails msg \<Longrightarrow>
     fst (proxy_request d m ps hs net) = (bad_gateway_generic_body, 502)"
  by (simp add: proxy_request_def client_request_def next_upstream_def Let_def)

lemma proxy_request_not_json:
  "next_upstream d m ps hs net = Replies delay r \<Longrightarrow> delay \<le> 5 \<Longrightarrow> content r = PlainText s \<Longrightarrow>
     fst (proxy_request d m ps hs net) = (bad_gateway_generic_body, 502)"
  by (simp add: proxy_request_def client_request_def next_upstream_def Let_def response_json_def)

lemma proxy_request_json:
  "next_upstream d m ps hs net = Replies delay r \<Longrightarrow> delay \<le> 5 \<Longrightarrow> content r = JsonText j \<Longrightarrow>
     fst (proxy_request d m ps hs net) = (j, status_code r)"
  by (simp add: proxy_request_def client_request_def next_upstream_def Let_def response_json_def)

text \<open>
  C5. Every transport failure of a forwarded call ends in exactly one outcome: a refused
  or unreachable upstream gives 502 with a detail that names the destination, an upstream
  that does not answer within the timeout of 5 gives 504, and every other failure gives
  502 with one fixed detail, whatever the text of the exception. In each case exactly one
  request has been sent: there is no retry.
\<close>

theorem proxy_request_failure_mapping:
  "(next_upstream d m ps hs net = Refuses msg \<longrightarrow>
      fst (proxy_request d m ps hs net) =
        (JObj [(''error'', JStr ''Bad gateway''),
               (''detail'', JStr (''Could not connect to '' @ d))], 502))
   \<and> (next_upstream d m ps hs net = Replies delay r \<and> delay > 5 \<longrightarrow>
      fst (proxy_request d m ps hs net) =
        (JObj [(''error'', JStr ''Gateway timeout''),
               (''detail'', JStr (''Backend '' @ d @ '' did not respond in time''))], 504))
   \<and> (next_upstream d m ps hs net = Fails msg \<longrightarrow>
      fst (proxy_request d m ps hs net) =
        (JObj [(''error'', JStr ''Bad gateway''),
               (''detail'', JStr ''Unexpected error contacting backend'')], 502))
   \<and> sent (snd (proxy_request d m ps hs net)) =
        sent net @ [\<lparr>req_method = m, req_url = d, req_params = ps, req_headers = hs\<rparr>]"
  using proxy_request_refuses [of d m ps hs net msg]
    proxy_request_timeout [of d m ps hs net delay r]
    proxy_request_fails [of d m ps hs net msg]
    proxy_request_sent [of d m ps hs net]
  by (simp add: bad_gateway_connect_body_def gateway_timeout_body_def bad_gateway_generic_body_def)

theorem proxy_request_failure_mapping_witness:
  "fst (proxy_request ''http://mme:9091/enb-info'' ''GET'' [] []
          (constant_network (Refuses ''connection refused''))) =
     (JObj [(''error'', JStr ''Bad gateway''),
            (''detail'', JStr ''Could not connect to http://mme:9091/enb-info'')], 502)
   \<and> fst (proxy_request ''http://mme:9091/enb-info'' ''GET'' [] []
          (constant_network (Replies 6 \<lparr>status_code = 200, content = JsonText (JArr [])\<rparr>))) =
     (JObj [(''error'', JStr ''Gateway timeout''),
            (''detail'', JStr ''Backend http://mme:9091/enb-info did not respond in time'')], 504)
   \<and> fst (proxy_request ''http://mme:9091/enb-info'' ''GET'' [] []
          (constant_network (Fails ''ssl: internal state 0x51''))) =
     (JObj [(''error'', JStr ''Bad gateway''),
            (''detail'', JStr ''Unexpected error contacting backend'')], 502)
   \<and> sent (snd (proxy_request ''http://mme:9091/enb-info'' ''GET'' [] []
          (constant_network (Fails ''ssl: internal state 0x51'')))) =
     [\<lparr>req_method = ''GET'', req_url = ''http://mme:9091/enb-info'',
       req_params = [], req_headers = []\<rparr>]"
  using proxy_request_failure_mapping [of "''http://mme:9091/enb-info''" "''GET''" "[]" "[]"
      "constant_network (Refuses ''connection refused'')" "''connection refused''"]
    proxy_request_failure_mapping [of "''http://mme:9091/enb-info''" "''GET''" "[]" "[]"
      "constant_network (Replies 6 \<lparr>status_code = 200, content = JsonText (JArr [])\<rparr>)" _
      6 "\<lparr>status_code = 200, content = JsonText (JArr [])\<rparr>"]
    proxy_request_failure_mapping [of "''http://mme:9091/enb-info''" "''GET''" "[]" "[]"
      "constant_network (Fails ''ssl: internal state 0x51'')" "''ssl: internal state 0x51''"]
  by (simp add: next_upstream_def constant_network_def)

text \<open>
  C9. When the upstream does answer in time, with any status code, but its body is not
  JSON, the result is the generic 502 outcome and neither the body nor the status code of
  the upstream; body and status code are passed through when the body parses as JSON.
\<close>

theorem proxy_request_non_json_body:
  "next_upstream d m ps hs net = Replies delay r \<and> delay \<le> 5 \<longrightarrow>
     (content r = PlainText s \<longrightarrow>
        fst (proxy_request d m ps hs net) =
          (JObj [(''error'', JStr ''Bad gateway''),
                 (''detail'', JStr ''Unexpected error contacting backend'')], 502))
     \<and> (content r = JsonText j \<longrightarrow>
        fst (proxy_request d m ps hs net) = (j, status_code r))"
  using proxy_request_not_json [of d m ps hs net delay r s]
    proxy_request_json [of d m ps hs net delay r j]
  by (simp add: bad_gateway_generic_body_def)

theorem proxy_request_non_json_body_witness:
  "fst (proxy_request ''http://smf:9091/pdu-info'' ''GET'' [] []
          (constant_network (Replies 1 \<lparr>status_code = 200, content = PlainText ''<html>ok</html>''\<rparr>))) =
     (JObj [(''error'', JStr ''Bad gateway''),
            (''detail'', JStr ''Unexpected error contacting backend'')], 502)
   \<and> fst (proxy_request ''http://smf:9091/pdu-info'' ''GET'' [] []
          (constant_network (Replies 1 \<lparr>status_code = 404, content = JsonText (JObj [(''items'', JArr [])])\<rparr>))) =
     (JObj [(''items'', JArr [])], 404)"
  using proxy_request_non_json_body [of "''http://smf:9091/pdu-info''" "''GET''" "[]" "[]"
      "constant_network (Replies 1 \<lparr>status_code = 200, content = PlainText ''<html>ok</html>''\<rparr>)"
      1 "\<lparr>status_code = 200, content = PlainText ''<html>ok</html>''\<rparr>" "''<html>ok</html>''"]
    proxy_request_non_json_body [of "''http://smf:9091/pdu-info''" "''GET''" "[]" "[]"
      "constant_network (Replies 1 \<lparr>status_code = 404, content = JsonText (JObj [(''items'', JArr [])])\<rparr>)"
      1 "\<lparr>status_code = 404, content = JsonText (JObj [(''items'', JArr [])])\<rparr>" _
      "JObj [(''items'', JArr [])]"]
  by (simp add: next_upstream_def constant_network_def)

section \<open>Properties of the validators\<close>

lemma validation_error_eq [simp]: "(e :: validation_error) = ValidationError"
  by (cases e) simp

lemma bindV_Inl [simp]: "bindV (Inl e) f = Inl e"
  by (simp add: bindV_def)

lemma bindV_Inr [simp]: "bindV (Inr x) f = f x"
  by (simp add: bindV_def)

lemma bindV_Inl_iff:
  "bindV r f = Inl ValidationError \<longleftrightarrow> isl r \<or> f (projr r) = Inl ValidationError"
  by (cases r) auto

subsection \<open>Patterns\<close>

lemma in_digit_class: "in_class digit_class c = is_decimal_digit c"
proof -
  have "is_decimal_digit c \<longleftrightarrow> (of_char c :: nat) \<in> of_char ` set ''0123456789''"
    unfolding is_decimal_digit_def by (simp only: inj_image_mem_iff [OF inj_of_char])
  also have "\<dots> \<longleftrightarrow> 48 \<le> (of_char c :: nat) \<and> (of_char c :: nat) \<le> 57"
    by simp arith
  finally show ?thesis by (simp add: in_class_def digit_class_def)
qed

lemma in_hex_class: "in_class hex_class c = is_hex_digit c"
proof -
  have "is_hex_digit c \<longleftrightarrow> (of_char c :: nat) \<in> of_char ` set ''0123456789abcdefABCDEF''"
    unfolding is_hex_digit_def by (simp only: inj_image_mem_iff [OF inj_of_char])
  also have "\<dots> \<longleftrightarrow> 48 \<le> (of_char c :: nat) \<and> (of_char c :: nat) \<le> 57
      \<or> 97 \<le> (of_char c :: nat) \<and> (of_char c :: nat) \<le> 102
      \<or> 65 \<le> (of_char c :: nat) \<and> (of_char c :: nat) \<le> 70"
    by simp arith
  finally show ?thesis by (simp add: in_class_def hex_class_def)
qed

lemma in_digit_class_eq: "in_class digit_class = is_decimal_digit"
  by (rule ext) (rule in_digit_class)

lemma in_hex_class_eq: "in_class hex_class = is_hex_digit"
  by (rule ext) (rule in_hex_class)

text \<open>The matcher accepts exactly the strings of a length in range whose characters are all in the class.\<close>

lemma match_repeat_iff:
  "match_repeat cls lo hi s \<longleftrightarrow> lo \<le> length s \<and> length s \<le> hi \<and> list_all (in_class cls) s"
  by (induction s arbitrary: lo hi) auto

lemma ImsiStr_cases:
  "ImsiStr s =
     (if (length s = 14 \<or> length s = 15) \<and> list_all is_decimal_digit s then Inr s
      else Inl ValidationError)"
  by (auto simp: ImsiStr_def pattern_field_def match_repeat_iff in_digit_class_eq)

lemma Hex32Str_cases:
  "Hex32Str v = (if holds_hex 32 (Given v) then Inr (clean_hex_spaces v) else Inl ValidationError)"
  by (auto simp: Hex32Str_def pattern_field_def match_repeat_iff in_hex_class_eq)

lemma Hex4Str_cases:
  "Hex4Str v = (if holds_hex 4 (Given v) then Inr (clean_hex_spaces v) else Inl ValidationError)"
  by (auto simp: Hex4Str_def pattern_field_def match_repeat_iff in_hex_class_eq)

subsection \<open>Lists and required keys\<close>

lemma validate_each_fails:
  "list_ex (\<lambda>x. \<forall>i. f i x = Inl ValidationError) xs \<Longrightarrow> validate_each f i xs = Inl ValidationError"
  by (induction xs arbitrary: i) (auto split: sum.splits)

lemma validate_bad_imsi:
  "d_imsi d = Given s \<Longrightarrow> ImsiStr s = Inl ValidationError \<Longrightarrow>
     validate_SubscriberSchema gen d = Inl ValidationError"
  by (simp add: validate_SubscriberSchema_def bindV_Inl_iff)

lemma validate_SliceModel_no_session:
  "not_supplied (d_sl_session s) \<Longrightarrow> validate_SliceModel gen s = Inl ValidationError"
  by (cases "d_sl_session s") (simp_all add: validate_SliceModel_def bindV_Inl_iff)

lemma validate_no_slice:
  "not_supplied (d_slice d) \<Longrightarrow> validate_SubscriberSchema gen d = Inl ValidationError"
  by (cases "d_slice d") (simp_all add: validate_SubscriberSchema_def bindV_Inl_iff)

lemma validate_slice_no_session:
  assumes "d_slice d = Given sls" and "list_ex (\<lambda>s. not_supplied (d_sl_session s)) sls"
  shows "validate_SubscriberSchema gen d = Inl ValidationError"
proof -
  have "validate_each (\<lambda>i. validate_SliceModel (\<lambda>p. gen (i # p))) 0 sls = Inl ValidationError"
    using assms(2)
    by (intro validate_each_fails) (force simp: list_ex_iff validate_SliceModel_no_session)
  then show ?thesis
    using assms(1) by (simp add: validate_SubscriberSchema_def bindV_Inl_iff)
qed

subsection \<open>C6: the IMSI\<close>

text \<open>
  C6. \<^verbatim>\<open>ImsiStr\<close> accepts a string exactly when it has 14 or 15 characters, all of them
  decimal digits; with any other string as its \<^verbatim>\<open>imsi\<close>, the construction of a subscriber
  record fails with a \<^verbatim>\<open>ValidationError\<close>.
\<close>

theorem ImsiStr_accepts_iff:
  "(ImsiStr s = Inr s) = ((length s = 14 \<or> length s = 15) \<and> list_all is_decimal_digit s)
   \<and> (\<not> ((length s = 14 \<or> length s = 15) \<and> list_all is_decimal_digit s) \<and> d_imsi d = Given s
        \<longrightarrow> validate_SubscriberSchema gen d = Inl ValidationError)"
  using validate_bad_imsi [of d s gen] by (simp add: ImsiStr_cases)

theorem ImsiStr_accepts_iff_witness:
  "ImsiStr ''001010000000001'' = Inr ''001010000000001''
   \<and> ImsiStr ''00101000000001'' = Inr ''00101000000001''
   \<and> ImsiStr ''0010100000001'' \<noteq> Inr ''0010100000001''
   \<and> validate_SubscriberSchema example_gen
        (example_subscriber ''00101000000000a'' Absent [example_slice 1]) = Inl ValidationError"
  using ImsiStr_accepts_iff [of "''001010000000001''"]
    ImsiStr_accepts_iff [of "''00101000000001''"]
    ImsiStr_accepts_iff [of "''0010100000001''"]
    ImsiStr_accepts_iff [of "''00101000000000a''"
      "example_subscriber ''00101000000000a'' Absent [example_slice 1]" example_gen]
  by (simp add: is_decimal_digit_def example_subscriber_def empty_SubscriberDict_def)

subsection \<open>C3: security credentials\<close>

text \<open>
  C3, as the specification has it, with all whitespace stripped: false. A key of 32
  hexadecimal digits followed by a tab satisfies the condition of the specification, and
  the validator rejects it, because \<^verbatim>\<open>clean_hex_spaces\<close> removes the space character only.
\<close>

theorem validate_SecurityModel_whitespace_counterexample:
  "spec_security_accepts
     (example_security\<lparr>d_k := Given (''465B5CE8B199B49FAA5F0A2EE238A6BC'' @ [CHR 0x09])\<rparr>)
   \<and> validate_SecurityModel
     (example_security\<lparr>d_k := Given (''465B5CE8B199B49FAA5F0A2EE238A6BC'' @ [CHR 0x09])\<rparr>)
       = Inl ValidationError"
  by (simp add: spec_security_accepts_def example_security_def strip_whitespace_def
      is_whitespace_def is_hex_digit_def validate_SecurityModel_def Hex32Str_cases
      clean_hex_spaces_def)

text \<open>
  C3, amended. \<^verbatim>\<open>SecurityModel\<close> validation accepts exactly when, after the space
  characters are removed from the hex fields, \<^verbatim>\<open>k\<close> is 32 hexadecimal digits, \<^verbatim>\<open>amf\<close> is
  left out (the default \<^verbatim>\<open>8000\<close> applies) or is 4 hexadecimal digits, and exactly one of
  \<^verbatim>\<open>op\<close> and \<^verbatim>\<open>opc\<close> is supplied and is 32 hexadecimal digits while the other is missing or
  \<^verbatim>\<open>null\<close>. Both supplied, or neither, is a validation failure.
\<close>

theorem validate_SecurityModel_accepts_iff:
  "(validate_SecurityModel d \<noteq> Inl ValidationError) =
     (holds_hex 32 (d_k d)
      \<and> (d_amf d = Absent \<or> holds_hex 4 (d_amf d))
      \<and> (holds_hex 32 (d_op d) \<and> not_supplied (d_opc d)
         \<or> holds_hex 32 (d_opc d) \<and> not_supplied (d_op d)))"
  by (cases "d_k d"; cases "d_amf d"; cases "d_op d"; cases "d_opc d")
     (auto simp: validate_SecurityModel_def Hex32Str_cases Hex4Str_cases check_op_or_opc_def)

theorem validate_SecurityModel_accepts_iff_witness:
  "validate_SecurityModel example_security \<noteq> Inl ValidationError
   \<and> validate_SecurityModel
       (example_security\<lparr>d_k := Given ''465B 5CE8 B199 B49F AA5F 0A2E E238 A6BC''\<rparr>)
         \<noteq> Inl ValidationError
   \<and> validate_SecurityModel
       (example_security\<lparr>d_op := Given ''E8ED289DEBA952E4283B54E88E6183CA''\<rparr>)
         = Inl ValidationError
   \<and> validate_SecurityModel (example_security\<lparr>d_opc := Null\<rparr>) = Inl ValidationError"
  using validate_SecurityModel_accepts_iff [of example_security]
    validate_SecurityModel_accepts_iff
      [of "example_security\<lparr>d_k := Given ''465B 5CE8 B199 B49F AA5F 0A2E E238 A6BC''\<rparr>"]
    validate_SecurityModel_accepts_iff
      [of "example_security\<lparr>d_op := Given ''E8ED289DEBA952E4283B54E88E6183CA''\<rparr>"]
    validate_SecurityModel_accepts_iff [of "example_security\<lparr>d_opc := Null\<rparr>"]
  by (simp add: example_security_def clean_hex_spaces_def is_hex_digit_def)

subsection \<open>C2: slices and sessions\<close>

text \<open>
  C2, as the specification has it: false. A body whose \<^verbatim>\<open>slice\<close> is the empty list is
  accepted, and so is a slice whose \<^verbatim>\<open>session\<close> is the empty list: the two list fields
  carry no minimum length.
\<close>

theorem validate_empty_slices_counterexample:
  "map_sum id sub_slice
     (validate_SubscriberSchema example_gen (example_subscriber ''001010000000001'' Absent []))
     = Inr []
   \<and> map_sum id sub_slice
     (validate_SubscriberSchema example_gen
        (example_subscriber ''001010000000001'' Absent
           [(example_slice 1)\<lparr>d_sl_session := Given []\<rparr>]))
     = Inr [\<lparr>sl_sst = 1, sl_sd = Some ''000001'', sl_default_indicator = True,
             sl_session = [], sl_id = Some ''0000000000000000000000a''\<rparr>]"
  by (simp add: validate_SubscriberSchema_def example_subscriber_def empty_SubscriberDict_def
      example_slice_def empty_SliceDict_def validate_SliceModel_def example_gen_def
      PyObjectId_def accept_def ImsiStr_cases is_decimal_digit_def example_security_def
      validate_SecurityModel_def Hex32Str_cases Hex4Str_cases clean_hex_spaces_def
      is_hex_digit_def check_op_or_opc_def)

text \<open>
  C2, amended. Validation fails whenever the \<^verbatim>\<open>slice\<close> key is missing or \<^verbatim>\<open>null\<close>, or any
  contained slice has its \<^verbatim>\<open>session\<close> key missing or \<^verbatim>\<open>null\<close>; so every record that is
  constructed was given a list of slices, and each slice a list of sessions. The lists may
  be empty.
\<close>

theorem validate_requires_slice_and_session_keys:
  "(not_supplied (d_slice d) \<longrightarrow> validate_SubscriberSchema gen d = Inl ValidationError)
   \<and> (d_slice d = Given sls \<and> list_ex (\<lambda>s. not_supplied (d_sl_session s)) sls
        \<longrightarrow> validate_SubscriberSchema gen d = Inl ValidationError)"
  using validate_no_slice [of d gen] validate_slice_no_session [of d sls gen] by blast

theorem validate_requires_slice_and_session_keys_witness:
  "validate_SubscriberSchema example_gen
     ((example_subscriber ''001010000000001'' Absent [])\<lparr>d_slice := Absent\<rparr>)
     = Inl ValidationError
   \<and> validate_SubscriberSchema example_gen
     (example_subscriber ''001010000000001'' Absent [example_slice 1, empty_SliceDict])
     = Inl ValidationError"
  using validate_requires_slice_and_session_keys
      [of "(example_subscriber ''001010000000001'' Absent [])\<lparr>d_slice := Absent\<rparr>" example_gen]
    validate_requires_slice_and_session_keys
      [of "example_subscriber ''001010000000001'' Absent [example_slice 1, empty_SliceDict]"
        example_gen "[example_slice 1, empty_SliceDict]"]
  by (simp add: example_subscriber_def empty_SubscriberDict_def empty_SliceDict_def
      example_slice_def)

section \<open>Properties of the store and of the subscriber endpoints\<close>

lemma create_index_imsi_docs:
  "create_index_imsi c = Inr c' \<Longrightarrow> docs c' = docs c \<and> accepts c' = accepts c \<and> unique_imsi c'"
  by (cases "imsi_index c"; cases "may_create_index c"; cases "distinct (map imsi_key (docs c))")
     (auto simp: create_index_imsi_def unique_imsi_def)

lemma ensure_indexes_docs:
  "docs (snd (ensure_indexes s c)) = docs c \<and> accepts (snd (ensure_indexes s c)) = accepts c"
proof (cases "create_index_imsi c")
  case (Inl e)
  then show ?thesis by (simp add: ensure_indexes_def)
next
  case (Inr c')
  then show ?thesis
    using create_index_imsi_docs [OF Inr] by (simp add: ensure_indexes_def)
qed

text \<open>
  When the collection the service hands to an endpoint has the unique index: it had it
  before, or the service had not created it yet and could: its user may create indexes,
  there is no other index on \<^verbatim>\<open>imsi\<close>, and the stored keys are pairwise distinct.
\<close>

lemma service_collection_unique_iff:
  "unique_imsi (snd (service_get_subscriber_collection s c)) \<longleftrightarrow>
     unique_imsi c
     \<or> \<not> svc_indexes_initialized s \<and> may_create_index c \<and> imsi_index c = NoIndex
        \<and> distinct (map imsi_key (docs c))"
  by (cases "svc_indexes_initialized s"; cases "may_create_index c"; cases "imsi_index c";
      cases "distinct (map imsi_key (docs c))")
     (simp_all add: service_get_subscriber_collection_def ensure_indexes_def
        create_index_imsi_def unique_imsi_def)

lemma get_subscriber_collection_Some:
  assumes "mongodb_service w = Some service"
  shows "\<exists>w'. get_subscriber_collection w = Inr w'
     \<and> db w' = snd (service_get_subscriber_collection service (db w))
     \<and> docs (db w') = docs (db w) \<and> accepts (db w') = accepts (db w)"
proof -
  obtain s' c' where e: "service_get_subscriber_collection service (db w) = (s', c')"
    by (cases "service_get_subscriber_collection service (db w)")
  have "docs c' = docs (db w) \<and> accepts c' = accepts (db w)"
    using ensure_indexes_docs [of "service\<lparr>svc_client := True\<rparr>" "db w"] e
    by (simp add: service_get_subscriber_collection_def)
  then show ?thesis
    using assms e by (simp add: get_subscriber_collection_def)
qed

lemma build_query_empty_name: "build_query (Some []) sst sd = build_query None sst sd"
  by (simp add: build_query_def)

lemma build_query_empty_sd: "build_query name sst (Some []) = build_query name sst None"
  by (simp add: build_query_def)

lemma elemMatch_sst: "elemMatch (x, None) d = has_slice_with_sst x d"
  by (cases "d_slice d") (simp_all add: list_ex_iff)

lemma fits_int64_small [simp]: "fits_int64 0" "fits_int64 100"
  by (simp_all add: fits_int64_def)

lemma get_subscribers_sst:
  assumes "mongodb_service w = Some service" and "fits_int64 x"
  shows "fst (get_subscribers engine gen None (Some x) None None None w) =
           validated gen (take 100 (filter (has_slice_with_sst x) (docs (db w))))"
proof -
  obtain w' where w': "get_subscriber_collection w = Inr w'" "docs (db w') = docs (db w)"
    using get_subscriber_collection_Some [OF assms(1)] by blast
  have "find_skip_limit engine (db w') (build_query None (Some x) None) 0 100 =
          Inr (take 100 (filter (has_slice_with_sst x) (docs (db w))))"
    using w'(2) assms(2)
    by (simp add: find_skip_limit_def build_query_def elemMatch_sst
        del: elemMatch.simps has_slice_with_sst.simps)
  then show ?thesis
    using w'(1) by (simp add: get_subscribers_def validated_def split: sum.splits)
qed

text \<open>A service type outside 64 bits: the driver cannot encode the filter, and the error is not caught.\<close>

lemma get_subscribers_sst_overflow:
  assumes "mongodb_service w = Some service" and "\<not> fits_int64 x"
  shows "fst (get_subscribers engine gen name (Some x) sd None None w) =
           Inl (UncaughtMongoError DriverEncodingError)"
proof -
  obtain w' where w': "get_subscriber_collection w = Inr w'"
    using get_subscriber_collection_Some [OF assms(1)] by blast
  have "find_skip_limit engine (db w') (build_query name (Some x) sd) 0 100 = Inl DriverEncodingError"
    using assms(2) by (simp add: find_skip_limit_def build_query_def)
  then show ?thesis
    using w' by (simp add: get_subscribers_def)
qed

lemma bindV_Inr_iff: "bindV r f = Inr y \<longleftrightarrow> (\<exists>x. r = Inr x \<and> f x = Inr y)"
  by (cases r) auto

lemma validate_each_Inr:
  "validate_each f i xs = Inr ys \<Longrightarrow> list_all2 (\<lambda>x y. \<exists>j. f j x = Inr y) xs ys"
  by (induction xs arbitrary: i ys) (auto split: sum.splits)

lemma validate_SliceModel_sst:
  "validate_SliceModel g s = Inr m \<Longrightarrow> d_sl_sst s = Given x \<Longrightarrow> sl_sst m = x"
  by (auto simp: validate_SliceModel_def bindV_Inr_iff accept_def)

lemma validate_SubscriberSchema_slices:
  "validate_SubscriberSchema gen d = Inr m \<Longrightarrow>
     \<exists>sls. d_slice d = Given sls \<and>
       validate_each (\<lambda>i. validate_SliceModel (\<lambda>p. gen (i # p))) 0 sls = Inr (sub_slice m)"
  by (cases "d_slice d") (auto simp: validate_SubscriberSchema_def bindV_Inr_iff)

lemma validate_keeps_sst:
  assumes "validate_SubscriberSchema gen d = Inr m" and "has_slice_with_sst x d"
  shows "list_ex (\<lambda>s. sl_sst s = x) (sub_slice m)"
proof -
  obtain sls where sls: "d_slice d = Given sls"
    "validate_each (\<lambda>i. validate_SliceModel (\<lambda>p. gen (i # p))) 0 sls = Inr (sub_slice m)"
    using validate_SubscriberSchema_slices [OF assms(1)] by blast
  have rel: "list_all2 (\<lambda>s y. \<exists>j. validate_SliceModel (\<lambda>p. gen (j # p)) s = Inr y) sls (sub_slice m)"
    using validate_each_Inr [OF sls(2)] .
  obtain s where s: "s \<in> set sls" "d_sl_sst s = Given x"
    using assms(2) sls(1) by (auto simp: list_ex_iff)
  then obtain k where k: "k < length sls" "sls ! k = s"
    by (auto simp: in_set_conv_nth)
  then obtain j where "validate_SliceModel (\<lambda>p. gen (j # p)) s = Inr (sub_slice m ! k)"
    using rel by (auto simp: list_all2_conv_all_nth)
  then have "sl_sst (sub_slice m ! k) = x"
    using s(2) validate_SliceModel_sst by blast
  moreover have "k < length (sub_slice m)"
    using rel k(1) by (simp add: list_all2_lengthD)
  ultimately show ?thesis
    unfolding list_ex_iff using nth_mem by blast
qed

lemma validated_keeps_sst:
  assumes "validated gen ds = Inr ms" and "list_all (has_slice_with_sst x) ds"
  shows "list_all (\<lambda>m. list_ex (\<lambda>s. sl_sst s = x) (sub_slice m)) ms"
proof -
  have "validate_each (\<lambda>n. validate_SubscriberSchema (\<lambda>p. gen (n # p))) 0 ds = Inr ms"
    using assms(1) by (simp add: validated_def split: sum.splits)
  then have rel: "list_all2 (\<lambda>d m. \<exists>j. validate_SubscriberSchema (\<lambda>p. gen (j # p)) d = Inr m) ds ms"
    by (rule validate_each_Inr)
  show ?thesis
    unfolding list_all_length
  proof (intro allI impI)
    fix k assume k: "k < length ms"
    then have "k < length ds" using rel by (simp add: list_all2_lengthD)
    then have "has_slice_with_sst x (ds ! k)"
      using assms(2) by (simp add: list_all_length)
    moreover obtain j where "validate_SubscriberSchema (\<lambda>p. gen (j # p)) (ds ! k) = Inr (ms ! k)"
      using rel k by (auto simp: list_all2_conv_all_nth)
    ultimately show "list_ex (\<lambda>s. sl_sst s = x) (sub_slice (ms ! k))"
      using validate_keeps_sst by blast
  qed
qed

lemma validate_each_length: "validate_each f i xs = Inr ys \<Longrightarrow> length ys = length xs"
  by (induction xs arbitrary: i ys) (auto split: sum.splits)

lemma validated_length: "validated gen ds = Inr ms \<Longrightarrow> length ms = length ds"
  by (auto simp: validated_def validate_each_length split: sum.splits)

lemma parse_atoms_plain: "list_all is_plain s \<Longrightarrow> parse_atoms s = Some (map Lit s)"
  by (induction s) (auto simp: is_plain_def is_meta_def)

lemma no_NUL_plain: "list_all is_plain s \<Longrightarrow> CHR 0x00 \<notin> set s"
  by (auto simp: list_all_iff is_plain_def)

lemma matches_at_start_Lit:
  "matches_at_start (map Lit s) n \<longleftrightarrow> prefix (map to_lower s) (map to_lower n)"
  by (induction s arbitrary: n) (case_tac n; auto)+

lemma regex_search_Lit:
  "regex_search (map Lit s) n \<longleftrightarrow> sublist (map to_lower s) (map to_lower n)"
proof (induction n)
  case Nil
  show ?case by (cases s) simp_all
next
  case (Cons x xs)
  have "regex_search (map Lit s) (x # xs) \<longleftrightarrow>
      prefix (map to_lower s) (map to_lower (x # xs)) \<or> regex_search (map Lit s) xs"
    using matches_at_start_Lit [of s "x # xs"] by simp
  with Cons show ?case by (simp add: sublist_Cons_right)
qed

lemma regex_i_plain:
  "list_all is_plain s \<Longrightarrow> length s \<le> 32764 \<Longrightarrow>
     regex_i engine s = Some (\<lambda>n. sublist (map to_lower s) (map to_lower n))"
  by (simp add: regex_i_def parse_atoms_plain no_NUL_plain) (rule ext, rule regex_search_Lit)

subsection \<open>Listing\<close>

subsubsection \<open>C10: empty filters\<close>

text \<open>
  C10. A name filter that is the empty string behaves as no name filter, and an empty
  \<^verbatim>\<open>sd\<close> next to an \<^verbatim>\<open>sst\<close> filter as no \<^verbatim>\<open>sd\<close>: the condition on \<^verbatim>\<open>sd\<close> is part of the
  match on a slice only when \<^verbatim>\<open>sd\<close> is a non-empty string.
\<close>

theorem get_subscribers_empty_filters:
  "get_subscribers engine gen (Some []) sst sd limit offset w =
     get_subscribers engine gen None sst sd limit offset w
   \<and> get_subscribers engine gen name sst (Some []) limit offset w =
     get_subscribers engine gen name sst None limit offset w
   \<and> q_slice (build_query name (Some x) sd) =
       Some (x, if sd = None \<or> sd = Some [] then None else sd)"
proof (intro conjI)
  show "get_subscribers engine gen (Some []) sst sd limit offset w =
     get_subscribers engine gen None sst sd limit offset w"
    unfolding get_subscribers_def build_query_empty_name ..
  show "get_subscribers engine gen name sst (Some []) limit offset w =
     get_subscribers engine gen name sst None limit offset w"
    unfolding get_subscribers_def build_query_empty_sd ..
  show "q_slice (build_query name (Some x) sd) =
       Some (x, if sd = None \<or> sd = Some [] then None else sd)"
    by (cases sd) (simp_all add: build_query_def)
qed

theorem get_subscribers_empty_filters_witness:
  "get_subscribers rejecting_engine example_gen (Some []) (Some 1) None None None
      (example_world three_stored True) =
     get_subscribers rejecting_engine example_gen None (Some 1) None None None
      (example_world three_stored True)
   \<and> get_subscribers rejecting_engine example_gen (Some ''Ann'') (Some 1) (Some []) None None
      (example_world three_stored True) =
     get_subscribers rejecting_engine example_gen (Some ''Ann'') (Some 1) None None None
      (example_world three_stored True)
   \<and> q_slice (build_query (Some ''Ann'') (Some 1) (Some [])) = Some (1, None)
   \<and> q_slice (build_query (Some ''Ann'') (Some 1) (Some ''000001'')) = Some (1, Some ''000001'')"
  using get_subscribers_empty_filters [of rejecting_engine example_gen "Some 1" None None None
      "example_world three_stored True" "Some ''Ann''" 1]
    get_subscribers_empty_filters [of rejecting_engine example_gen "Some 1" "Some []" None None
      "example_world three_stored True" "Some ''Ann''" 1]
    get_subscribers_empty_filters [of rejecting_engine example_gen "Some 1" "Some ''000001''" None None
      "example_world three_stored True" "Some ''Ann''" 1]
  by simp

subsubsection \<open>C7: the filter on the service type\<close>

lemma returned_validated_sst:
  "list_all (has_slice_with_sst x) ds \<Longrightarrow>
     list_all (\<lambda>m. list_ex (\<lambda>s. sl_sst s = x) (sub_slice m)) (returned (validated gen ds))"
  using validated_keeps_sst [of gen ds _ x]
  by (cases "validated gen ds") (simp_all add: returned_def)

lemma returned_validated_length: "length (returned (validated gen ds)) \<le> length ds"
  using validated_length [of gen ds]
  by (cases "validated gen ds") (simp_all add: returned_def)

lemma list_all_take_filter: "list_all P (take n (filter P xs))"
  by (auto simp: list_all_iff dest: in_set_takeD)

text \<open>
  C7, amended. For an integer \<open>x\<close> that fits in 64 bits, with only the filter \<^verbatim>\<open>sst = x\<close>, the
  default limit and offset, the endpoint takes the first 100, in storage order, of the
  stored records that have at least one slice whose \<^verbatim>\<open>sst\<close> is \<open>x\<close>, and returns them
  validated; when one of them fails validation the request fails and returns nothing.
  Every returned record has such a slice, a record without one is never returned, and at
  most 100 records are returned. The match is on the elements of the slice sequence.
\<close>

theorem get_subscribers_sst_filter:
  assumes "mongodb_service w = Some service" and "fits_int64 x"
  shows "fst (get_subscribers engine gen None (Some x) None None None w) =
           validated gen (take 100 (filter (has_slice_with_sst x) (docs (db w))))
     \<and> list_all (\<lambda>m. list_ex (\<lambda>s. sl_sst s = x) (sub_slice m))
         (returned (fst (get_subscribers engine gen None (Some x) None None None w)))
     \<and> length (returned (fst (get_subscribers engine gen None (Some x) None None None w))) \<le> 100"
proof -
  let ?ds = "take 100 (filter (has_slice_with_sst x) (docs (db w)))"
  have eq: "fst (get_subscribers engine gen None (Some x) None None None w) = validated gen ?ds"
    by (rule get_subscribers_sst [OF assms])
  have "list_all (has_slice_with_sst x) ?ds"
    by (rule list_all_take_filter)
  then have "list_all (\<lambda>m. list_ex (\<lambda>s. sl_sst s = x) (sub_slice m)) (returned (validated gen ?ds))"
    by (rule returned_validated_sst)
  moreover have "length (returned (validated gen ?ds)) \<le> 100"
    using returned_validated_length [of gen ?ds] by simp
  ultimately show ?thesis
    using eq by simp
qed

lemma three_stored_sst1:
  "filter (has_slice_with_sst 1) three_stored =
     [stored_subscriber ''65a000000000000000000001'' ''001010000000001'' (Given ''Ann'')
        [example_slice 1],
      stored_subscriber ''65a000000000000000000002'' ''001010000000002'' (Given ''Bob'')
        [example_slice 2, example_slice 1]]"
  by (simp add: three_stored_def stored_subscriber_def example_subscriber_def
      empty_SubscriberDict_def example_slice_def empty_SliceDict_def)

lemma validated_sst1:
  "map_sum id (map sub_imsi) (validated example_gen
     [stored_subscriber ''65a000000000000000000001'' ''001010000000001'' (Given ''Ann'')
        [example_slice 1],
      stored_subscriber ''65a000000000000000000002'' ''001010000000002'' (Given ''Bob'')
        [example_slice 2, example_slice 1]]) = Inr [''001010000000001'', ''001010000000002'']"
  by code_simp

theorem get_subscribers_sst_filter_witness:
  "mongodb_service (example_world three_stored True) = Some example_service
   \<and> fits_int64 1
   \<and> map_sum id (map sub_imsi)
       (fst (get_subscribers rejecting_engine example_gen None (Some 1) None None None
          (example_world three_stored True))) = Inr [''001010000000001'', ''001010000000002'']
   \<and> list_all (\<lambda>m. list_ex (\<lambda>s. sl_sst s = 1) (sub_slice m))
       (returned (fst (get_subscribers rejecting_engine example_gen None (Some 1) None None None
          (example_world three_stored True))))"
proof -
  have s: "mongodb_service (example_world three_stored True) = Some example_service"
    by (simp add: example_world_def)
  have d: "docs (db (example_world three_stored True)) = three_stored"
    by (simp add: example_world_def)
  have f: "fits_int64 1"
    by (simp add: fits_int64_def)
  note t = get_subscribers_sst_filter [OF s f, of rejecting_engine example_gen]
  show ?thesis
  proof (intro conjI)
    show "mongodb_service (example_world three_stored True) = Some example_service"
      by (rule s)
    show "fits_int64 1"
      by (rule f)
    show "map_sum id (map sub_imsi)
       (fst (get_subscribers rejecting_engine example_gen None (Some 1) None None None
          (example_world three_stored True))) = Inr [''001010000000001'', ''001010000000002'']"
      using t by (simp add: d three_stored_sst1 validated_sst1)
    show "list_all (\<lambda>m. list_ex (\<lambda>s. sl_sst s = 1) (sub_slice m))
       (returned (fst (get_subscribers rejecting_engine example_gen None (Some 1) None None None
          (example_world three_stored True))))"
      using t by blast
  qed
qed

lemma validate_each_total:
  "(\<And>x i. x \<in> set xs \<Longrightarrow> \<exists>y. f i x = Inr y) \<Longrightarrow> \<exists>ys. validate_each f i xs = Inr ys"
proof (induction xs arbitrary: i)
  case Nil
  show ?case by simp
next
  case (Cons x xs)
  obtain y where "f i x = Inr y" using Cons.prems [of x i] by auto
  moreover obtain ys where "validate_each f (Suc i) xs = Inr ys"
    using Cons.IH [of "Suc i"] Cons.prems by auto
  ultimately show ?case by simp
qed

lemma decimal_digit_char: "d < 10 \<Longrightarrow> is_decimal_digit (''0123456789'' ! d)"
  unfolding is_decimal_digit_def by (rule nth_mem) simp

lemma ImsiStr_imsi_of_nat: "ImsiStr (imsi_of_nat k) = Inr (imsi_of_nat k)"
  by (simp add: ImsiStr_cases imsi_of_nat_def decimal_digit_char) (simp add: is_decimal_digit_def)

lemma validate_stored_example:
  assumes "ImsiStr i = Inr i"
  shows "\<exists>m. validate_SubscriberSchema g (stored_subscriber oid i Absent [example_slice 1]) = Inr m"
  using assms
  by (simp add: validate_SubscriberSchema_def stored_subscriber_def example_subscriber_def
      empty_SubscriberDict_def example_slice_def empty_SliceDict_def validate_SliceModel_def
      empty_SessionDict_def validate_SessionModel_def
      PyObjectId_def accept_def example_security_def
      validate_SecurityModel_def Hex32Str_cases Hex4Str_cases clean_hex_spaces_def
      is_hex_digit_def check_op_or_opc_def)

lemma many_stored_sst: "filter (has_slice_with_sst 1) (many_stored n) = many_stored n"
  by (simp add: many_stored_def stored_subscriber_def example_subscriber_def
      empty_SubscriberDict_def example_slice_def empty_SliceDict_def filter_map o_def)

lemma length_many_stored: "length (many_stored n) = n"
  by (simp add: many_stored_def)

lemma validated_many_stored: "\<exists>ms. validated g (take k (many_stored n)) = Inr ms"
proof -
  have "\<exists>ys. validate_each (\<lambda>n. validate_SubscriberSchema (\<lambda>p. g (n # p))) 0 (take k (many_stored n)) = Inr ys"
  proof (rule validate_each_total)
    fix x i assume "x \<in> set (take k (many_stored n))"
    then have "x \<in> set (many_stored n)" by (rule in_set_takeD)
    then obtain j where "x = stored_subscriber (imsi_of_nat j) (imsi_of_nat j) Absent [example_slice 1]"
      by (auto simp: many_stored_def)
    then show "\<exists>y. validate_SubscriberSchema (\<lambda>p. g (i # p)) x = Inr y"
      using validate_stored_example [OF ImsiStr_imsi_of_nat] by simp
  qed
  then show ?thesis by (auto simp: validated_def)
qed

text \<open>
  C7, as the specification has it: false. With 101 stored records that each have a slice
  of service type 1, the endpoint returns 100 of them: the default limit cuts the result.
\<close>

theorem get_subscribers_limit_counterexample:
  "length (filter (has_slice_with_sst 1) (docs (db (example_world (many_stored 101) True)))) = 101
   \<and> map_sum id length
       (fst (get_subscribers rejecting_engine example_gen None (Some 1) None None None
          (example_world (many_stored 101) True))) = Inr 100"
proof -
  let ?w = "example_world (many_stored 101) True"
  have s: "mongodb_service ?w = Some example_service" and d: "docs (db ?w) = many_stored 101"
    by (simp_all add: example_world_def)
  have eq: "fst (get_subscribers rejecting_engine example_gen None (Some 1) None None None ?w) =
      validated example_gen (take 100 (many_stored 101))"
    using get_subscribers_sst [OF s, of 1 rejecting_engine example_gen]
    by (simp add: d many_stored_sst fits_int64_def)
  obtain ms where ms: "validated example_gen (take 100 (many_stored 101)) = Inr ms"
    using validated_many_stored by blast
  then have "length ms = 100"
    using validated_length [OF ms] by (simp add: length_many_stored)
  then show ?thesis
    using eq ms by (simp add: d many_stored_sst length_many_stored)
qed

subsubsection \<open>C8: the filter on the name\<close>

lemma validated_list_all:
  assumes "validated gen ds = Inr ms" and "list_all P ds"
    and "\<And>g d m. validate_SubscriberSchema g d = Inr m \<Longrightarrow> P d \<Longrightarrow> Q m"
  shows "list_all Q ms"
proof -
  have "validate_each (\<lambda>n. validate_SubscriberSchema (\<lambda>p. gen (n # p))) 0 ds = Inr ms"
    using assms(1) by (simp add: validated_def split: sum.splits)
  then have rel: "list_all2 (\<lambda>d m. \<exists>j. validate_SubscriberSchema (\<lambda>p. gen (j # p)) d = Inr m) ds ms"
    by (rule validate_each_Inr)
  show ?thesis
    unfolding list_all_length
  proof (intro allI impI)
    fix k assume k: "k < length ms"
    then have "k < length ds" using rel by (simp add: list_all2_lengthD)
    then have "P (ds ! k)"
      using assms(2) by (simp add: list_all_length)
    moreover obtain j where "validate_SubscriberSchema (\<lambda>p. gen (j # p)) (ds ! k) = Inr (ms ! k)"
      using rel k by (auto simp: list_all2_conv_all_nth)
    ultimately show "Q (ms ! k)"
      using assms(3) by blast
  qed
qed

lemma validate_keeps_name:
  "validate_SubscriberSchema g d = Inr m \<Longrightarrow> name_contains s d \<Longrightarrow> record_name_contains s m"
  by (cases "d_name d")
     (auto simp: validate_SubscriberSchema_def bindV_Inr_iff max_length_field_def
           split: if_splits sum.splits)

lemma returned_validated_name:
  "list_all (name_contains s) ds \<Longrightarrow> list_all (record_name_contains s) (returned (validated gen ds))"
  using validated_list_all [of gen ds _ "name_contains s" "record_name_contains s"]
    validate_keeps_name
  by (cases "validated gen ds") (simp_all add: returned_def del: name_contains.simps record_name_contains.simps)

lemma name_matches_plain:
  "name_matches (\<lambda>n. sublist (map to_lower s) (map to_lower n)) = name_contains s"
  by (rule ext) simp

lemma get_subscribers_name:
  assumes "mongodb_service w = Some service" and "s \<noteq> []" and "list_all is_plain s"
    and "length s \<le> 32764"
  shows "fst (get_subscribers engine gen (Some s) None None None None w) =
           validated gen (take 100 (filter (name_contains s) (docs (db w))))"
proof -
  obtain w' where w': "get_subscriber_collection w = Inr w'" "docs (db w') = docs (db w)"
    using get_subscriber_collection_Some [OF assms(1)] by blast
  have "find_skip_limit engine (db w') (build_query (Some s) None None) 0 100 =
          Inr (take 100 (filter (name_contains s) (docs (db w))))"
    using w'(2) assms(2)
    by (simp add: find_skip_limit_def build_query_def regex_i_plain [OF assms(3,4)] name_matches_plain
        del: name_contains.simps name_matches.simps)
  then show ?thesis
    using w'(1) by (simp add: get_subscribers_def validated_def split: sum.splits)
qed

text \<open>
  C8, amended. Names are strings of code points below 256. For a non-empty filter string
  \<open>s\<close> of at most 32764 characters, each an ASCII character other than NUL and other than the
  metacharacters of regular expressions (backslash and \<^verbatim>\<open>^ $ . [ ] | ( ) ? * + { }\<close>), with
  only the name filter and the default limit and offset, the endpoint takes the first 100,
  in storage order, of the stored records whose name contains \<open>s\<close> as a substring, the
  letters A to Z compared without regard to case and every other character exactly, and
  returns them validated; when one of them fails validation the request fails and returns
  nothing. Every returned record has such a name, and no record without one is returned.
\<close>

theorem get_subscribers_name_filter:
  assumes "mongodb_service w = Some service" and "s \<noteq> []" and "list_all is_plain s"
    and "length s \<le> 32764"
  shows "fst (get_subscribers engine gen (Some s) None None None None w) =
           validated gen (take 100 (filter (name_contains s) (docs (db w))))
     \<and> list_all (record_name_contains s)
         (returned (fst (get_subscribers engine gen (Some s) None None None None w)))"
proof -
  let ?ds = "take 100 (filter (name_contains s) (docs (db w)))"
  have eq: "fst (get_subscribers engine gen (Some s) None None None None w) = validated gen ?ds"
    by (rule get_subscribers_name [OF assms])
  have "list_all (name_contains s) ?ds"
    by (rule list_all_take_filter)
  then have "list_all (record_name_contains s) (returned (validated gen ?ds))"
    by (rule returned_validated_name)
  then show ?thesis
    using eq by simp
qed

lemma three_stored_an:
  "filter (name_contains ''an'') three_stored =
     [stored_subscriber ''65a000000000000000000001'' ''001010000000001'' (Given ''Ann'')
        [example_slice 1]]"
  by code_simp

lemma validated_an:
  "map_sum id (map sub_name) (validated example_gen
     [stored_subscriber ''65a000000000000000000001'' ''001010000000001'' (Given ''Ann'')
        [example_slice 1]]) = Inr [Some ''Ann'']"
  by code_simp

theorem get_subscribers_name_filter_witness:
  "mongodb_service (example_world three_stored True) = Some example_service
   \<and> ''an'' \<noteq> [] \<and> list_all is_plain ''an'' \<and> length ''an'' \<le> 32764
   \<and> map_sum id (map sub_name)
       (fst (get_subscribers rejecting_engine example_gen (Some ''an'') None None None None
          (example_world three_stored True))) = Inr [Some ''Ann'']
   \<and> list_all (record_name_contains ''an'')
       (returned (fst (get_subscribers rejecting_engine example_gen (Some ''an'') None None None None
          (example_world three_stored True))))"
proof -
  have s: "mongodb_service (example_world three_stored True) = Some example_service"
    by (simp add: example_world_def)
  have d: "docs (db (example_world three_stored True)) = three_stored"
    by (simp add: example_world_def)
  have n: "''an'' \<noteq> []" by simp
  have p: "list_all is_plain ''an''" by (simp add: is_plain_def is_meta_def)
  have l: "length ''an'' \<le> 32764" by simp
  note t = get_subscribers_name_filter [OF s n p l, of rejecting_engine example_gen]
  show ?thesis
  proof (intro conjI)
    show "mongodb_service (example_world three_stored True) = Some example_service"
      by (rule s)
    show "''an'' \<noteq> []" by (rule n)
    show "list_all is_plain ''an''" by (rule p)
    show "length ''an'' \<le> 32764" by (rule l)
    show "map_sum id (map sub_name)
       (fst (get_subscribers rejecting_engine example_gen (Some ''an'') None None None None
          (example_world three_stored True))) = Inr [Some ''Ann'']"
      using t by (simp add: d three_stored_an validated_an del: name_contains.simps)
    show "list_all (record_name_contains ''an'')
       (returned (fst (get_subscribers rejecting_engine example_gen (Some ''an'') None None None None
          (example_world three_stored True))))"
      using t by blast
  qed
qed

text \<open>
  C8, as the specification has it: false. The filter is handed to \<^verbatim>\<open>$regex\<close> as it is, so
  it is a pattern and not a substring: the filter \<^verbatim>\<open>.\<close> returns the record named \<^verbatim>\<open>Ann\<close>,
  whose name does not contain a dot.
\<close>

theorem get_subscribers_regex_counterexample:
  "\<not> name_contains ''.''
       (stored_subscriber ''65a000000000000000000001'' ''001010000000001'' (Given ''Ann'')
          [example_slice 1])
   \<and> map_sum id (map sub_name)
       (fst (get_subscribers rejecting_engine example_gen (Some ''.'') None None None None
          (example_world
             [stored_subscriber ''65a000000000000000000001'' ''001010000000001'' (Given ''Ann'')
                [example_slice 1]] True))) = Inr [Some ''Ann'']"
  by code_simp

subsection \<open>Creating\<close>

lemma imsi_key_Given: "d_imsi d = Given i \<Longrightarrow> imsi_key d = Some i"
  by simp

lemma encodable_d_id [simp]: "encodable (d\<lparr>d_id := i\<rparr>) = encodable d"
  by (simp add: encodable_def)

lemma encodable_d_imsi [simp]: "encodable (d\<lparr>d_imsi := i\<rparr>) = encodable d"
  by (simp add: encodable_def)



lemma d_id_model_dump_exclude_id: "d_id (model_dump_exclude_id m) = Absent"
  by (simp add: model_dump_exclude_id_def)

text \<open>
  A record the driver cannot encode, for one with an \<^verbatim>\<open>int\<close> outside 64 bits: the error is not
  caught, whatever the collection holds, and nothing is stored.
\<close>

lemma create_subscriber_not_encodable:
  assumes "mongodb_service w = Some service"
    and "\<not> encodable (model_dump_exclude_id subscriber_data)"
  shows "fst (create_subscriber gen subscriber_data oid w) = Inl (UncaughtMongoError DriverEncodingError)
     \<and> docs (db (snd (create_subscriber gen subscriber_data oid w))) = docs (db w)"
proof -
  obtain w' where w': "get_subscriber_collection w = Inr w'" "docs (db w') = docs (db w)"
    using get_subscriber_collection_Some [OF assms(1)] by blast
  have "insert_one (db w') (model_dump_exclude_id subscriber_data) oid = Inl DriverEncodingError"
    using assms(2) by (simp add: insert_one_def Let_def d_id_model_dump_exclude_id)
  then show ?thesis
    using w' by (simp add: create_subscriber_def)
qed







subsection \<open>Replacing\<close>

lemma dropWhile_no_match:
  "Given imsi \<notin> set (map d_imsi ds) \<Longrightarrow> dropWhile (\<lambda>d. d_imsi d \<noteq> Given imsi) ds = []"
  by (induction ds) auto

text \<open>No stored record has the path IMSI, and the driver can encode the payload: 404, and nothing changes.\<close>

lemma update_subscriber_not_found:
  assumes "mongodb_service w = Some service"
    and "Given imsi \<notin> set (map d_imsi (docs (db w)))"
    and "encodable (model_dump updated_data)"
  shows "fst (update_subscriber imsi updated_data w) =
           Inl (HTTPException 404 (''Subscriber with IMSI '' @ imsi @ '' not found''))
     \<and> docs (db (snd (update_subscriber imsi updated_data w))) = docs (db w)"
proof -
  obtain w' where w': "get_subscriber_collection w = Inr w'" "docs (db w') = docs (db w)"
    using get_subscriber_collection_Some [OF assms(1)] by blast
  have "replace_one (db w') imsi ((model_dump updated_data)\<lparr>d_imsi := Given imsi\<rparr>) = Inr (db w', 0)"
    using assms(2,3) w'(2) by (simp add: replace_one_def dropWhile_no_match)
  then show ?thesis
    using w' by (simp add: update_subscriber_def)
qed

text \<open>
  A payload without \<^verbatim>\<open>_id\<close> that the driver can encode and the collection accepts: the
  first record with the path IMSI is replaced by the payload with its \<^verbatim>\<open>imsi\<close> set to the
  path IMSI, it keeps its \<^verbatim>\<open>_id\<close>, and every other record stays as it is.
\<close>

lemma update_subscriber_replaces:
  assumes "mongodb_service w = Some service"
    and "sub_id updated_data = None"
    and "docs (db w) = before @ old # after"
    and "Given imsi \<notin> set (map d_imsi before)"
    and "d_imsi old = Given imsi"
    and "Some imsi \<notin> set (map imsi_key (before @ after))"
    and "encodable (model_dump updated_data)"
    and "accepts (db w) ((model_dump updated_data)\<lparr>d_imsi := Given imsi, d_id := d_id old\<rparr>)"
  shows "fst (update_subscriber imsi updated_data w) =
           Inr (JObj [(''status'', JStr ''success''),
                      (''message'', JStr (''Subscriber '' @ imsi @ '' updated''))])
     \<and> docs (db (snd (update_subscriber imsi updated_data w))) =
         before @ [(model_dump updated_data)\<lparr>d_imsi := Given imsi, d_id := d_id old\<rparr>] @ after"
proof -
  obtain w' where w': "get_subscriber_collection w = Inr w'" "docs (db w') = docs (db w)"
    "accepts (db w') = accepts (db w)"
    using get_subscriber_collection_Some [OF assms(1)] by blast
  have b: "\<forall>d\<in>set before. d_imsi d \<noteq> Given imsi"
    using assms(4) by (metis image_eqI set_map)
  have t: "takeWhile (\<lambda>d. d_imsi d \<noteq> Given imsi) (docs (db w')) = before"
    using b assms(5) by (simp add: w'(2) assms(3) takeWhile_append2)
  have dr: "dropWhile (\<lambda>d. d_imsi d \<noteq> Given imsi) (docs (db w')) = old # after"
    using b assms(5) by (simp add: w'(2) assms(3) dropWhile_append2)
  have i: "d_id ((model_dump updated_data)\<lparr>d_imsi := Given imsi\<rparr>) = Absent"
    using assms(2) by (simp add: model_dump_def)
  have "replace_one (db w') imsi ((model_dump updated_data)\<lparr>d_imsi := Given imsi\<rparr>) =
      Inr ((db w')\<lparr>docs := before @
          [(model_dump updated_data)\<lparr>d_imsi := Given imsi, d_id := d_id old\<rparr>] @ after\<rparr>, 1)"
    using assms(6,7,8) i w'(3) by (simp add: replace_one_def t dr Let_def)
  then show ?thesis
    using w'(1) by (simp add: update_subscriber_def)
qed

text \<open>
  C4 at a payload that carries an \<^verbatim>\<open>_id\<close>: the record the list endpoint returns for the stored
  subscriber 001010000000001, sent back unchanged. \<^verbatim>\<open>update_subscriber\<close> dumps it with its
  \<^verbatim>\<open>_id\<close> (a string), the store refuses to alter the \<^verbatim>\<open>_id\<close> of the matched document, and the
  error is not one the handler catches: the payload is not stored, and the outcome is none
  of success, 404 and 409.
\<close>

theorem update_subscriber_embedded_id:
  "sub_id (example_record (stored_subscriber ''65a000000000000000000001'' ''001010000000001''
             (Given ''Ann'') [example_slice 1])) = Some ''65a000000000000000000001''
   \<and> fst (update_subscriber ''001010000000001''
        (example_record (stored_subscriber ''65a000000000000000000001'' ''001010000000001''
           (Given ''Ann'') [example_slice 1]))
        (example_world three_stored True)) =
       Inl (UncaughtMongoError
              (WriteError ''the (immutable) field _id was found to have been altered''))
   \<and> docs (db (snd (update_subscriber ''001010000000001''
        (example_record (stored_subscriber ''65a000000000000000000001'' ''001010000000001''
           (Given ''Ann'') [example_slice 1]))
        (example_world three_stored True)))) = three_stored"
  by code_simp

end
